theory Spec2Isabelle
  imports Main "HOL-Library.Word"
begin

section \<open>Go values shared by the models\<close>

text \<open>
  A Go \<^verbatim>\<open>error\<close> is an interface value; \<^verbatim>\<open>nil\<close> is \<open>None\<close> of \<open>error option\<close>.
  The sources distinguish three kinds of error value: etcd's \<^verbatim>\<open>client.Error\<close> (matched by
  the type assertion \<^verbatim>\<open>err.(client.Error)\<close> and its \<^verbatim>\<open>Code\<close>), the package variable
  \<^verbatim>\<open>ErrorConflict\<close>, and the routing API's \<^verbatim>\<open>DBError{Type, Message}\<close>. Every other error
  (from \<^verbatim>\<open>errors.New\<close>, the JSON codec, the network, the operating system) is \<open>GoError\<close>
  with its message.
\<close>

datatype DBErrorType = KeyNotFound | NonUpdatableField | UniqueField

datatype error =
    ClientError nat string
  | ErrorConflict
  | DBError DBErrorType string
  | GoError string

text \<open>
  A call either returns or panics. The panics of the sources are \<^verbatim>\<open>panic("...")\<close>,
  \<^verbatim>\<open>panic(err)\<close>, the dereference of a nil pointer, and a failed Gomega assertion
  (\<^verbatim>\<open>Expect(...)\<close>, \<^verbatim>\<open>Eventually(...)\<close>), which Ginkgo's fail handler turns into a panic
  that aborts the running spec.
\<close>

datatype panic =
    PanicMessage string
  | PanicError error
  | NilPointerDereference
  | GomegaFailure

datatype 'a exec = Returned 'a | Panicked panic

text \<open>\<^verbatim>\<open>fmt.Sprintf("%d", n)\<close>: the decimal digits of an integer, with a minus sign.\<close>

definition digit :: "nat \<Rightarrow> char" where
  "digit n = ''0123456789'' ! n"

fun digits :: "nat \<Rightarrow> string" where
  "digits n = (if n < 10 then [digit n] else digits (n div 10) @ [digit (n mod 10)])"

definition Sprintf_d :: "int \<Rightarrow> string" where
  "Sprintf_d i = (if i < 0 then CHR ''-'' # digits (nat (- i)) else digits (nat i))"

section \<open>The configuration loaders\<close>

text \<open>
  \<^verbatim>\<open>helpers/test_helpers.go\<close> and the router API helper (\<^verbatim>\<open>RouterApiConfig\<close>) each read the
  path of a JSON file from an environment variable, open the file and decode it. The
  operating system and the JSON decoder are the environment of the loaders:
  \<open>Getenv\<close> is \<^verbatim>\<open>os.Getenv\<close>, \<open>Open\<close> is \<^verbatim>\<open>os.Open\<close>, and \<open>Decode\<close> is
  \<^verbatim>\<open>json.NewDecoder(file).Decode(&config)\<close> started on the zero value of the
  configuration: it yields the configuration as far as it was filled in, and the
  decoder's error.
\<close>

record ('f, 'c) loader_env =
  Getenv :: "string \<Rightarrow> string"
  Open :: "string \<Rightarrow> error + 'f"
  Decode :: "'f \<Rightarrow> 'c \<times> error option"

record OAuthConfig =
  TokenEndpoint :: string
  ClientName :: string
  ClientSecret :: string
  OAuthPort :: int

text \<open>
  \<^verbatim>\<open>config.Config\<close> of cf-test-helpers, embedded by pointer in \<^verbatim>\<open>RoutingConfig\<close>: the
  fields the sources read.
\<close>

record Config =
  ApiEndpoint :: string
  AppsDomain :: string
  SkipSSLValidation :: bool

record RoutingConfig =
  EmbeddedConfig :: "Config option"
  RoutingApiUrl :: string
  Addresses :: "string list"
  OAuth :: "OAuthConfig option"
  IncludeHttpRoutes :: bool
  TcpAppDomain :: string
  LBConfigured :: bool

definition configPath :: "('f, 'c) loader_env \<Rightarrow> string exec" where
  "configPath env =
     (let path = Getenv env ''CONFIG'' in
      if path = ''''
      then Panicked (PanicMessage ''Must set $CONFIG to point to an integration config .json file.'')
      else Returned path)"

definition loadConfigJsonFromPath :: "('f, 'c) loader_env \<Rightarrow> 'c exec" where
  "loadConfigJsonFromPath env =
     (case configPath env of
        Panicked p \<Rightarrow> Panicked p
      | Returned path \<Rightarrow>
          (case Open env path of
             Inl err \<Rightarrow> Panicked (PanicError err)
           | Inr configFile \<Rightarrow>
               (case Decode env configFile of
                  (config, Some err) \<Rightarrow> Panicked (PanicError err)
                | (config, None) \<Rightarrow> Returned config)))"

text \<open>
  \<^verbatim>\<open>LoadConfig\<close> of \<^verbatim>\<open>helpers/test_helpers.go\<close>. Its second argument is the outcome of
  \<^verbatim>\<open>config.LoadConfig()\<close> of cf-test-helpers, whose code is not part of the repository.
\<close>

definition LoadConfig :: "('f, RoutingConfig) loader_env \<Rightarrow> Config exec \<Rightarrow> RoutingConfig exec" where
  "LoadConfig env config_LoadConfig =
     (case loadConfigJsonFromPath env of
        Panicked p \<Rightarrow> Panicked p
      | Returned loaded \<Rightarrow>
          (case config_LoadConfig of
             Panicked p \<Rightarrow> Panicked p
           | Returned c \<Rightarrow>
               (let loadedConfig = loaded\<lparr>EmbeddedConfig := Some c\<rparr> in
                if OAuth loadedConfig = None
                then Panicked (PanicMessage ''missing configuration oauth'')
                else if length (Addresses loadedConfig) = 0
                then Panicked (PanicMessage (''missing configuration '' @ [CHR 0x27] @ ''addresses'' @ [CHR 0x27]))
                else if AppsDomain c = ''''
                then Panicked (PanicMessage ''missing configuration apps_domain'')
                else if ApiEndpoint c = ''''
                then Panicked (PanicMessage ''missing configuration api'')
                else Returned (loadedConfig\<lparr>RoutingApiUrl := ''https://'' @ ApiEndpoint c\<rparr>))))"

text \<open>The loader of \<^verbatim>\<open>RouterApiConfig\<close> (the second \<^verbatim>\<open>helpers\<close> package).\<close>

record RouterApiConfig =
  Address :: string
  Port :: "16 word"
  BBSAddress :: string

definition DEFAULT_BBS_API_URL :: string where
  "DEFAULT_BBS_API_URL = ''http://bbs.service.cf.internal:8889''"

definition configPath_RouterApi :: "('f, 'c) loader_env \<Rightarrow> string exec" where
  "configPath_RouterApi env =
     (let path = Getenv env ''ROUTER_API_CONFIG'' in
      if path = ''''
      then Panicked (PanicMessage ''Must set $ROUTER_API_CONFIG to point to an integration config .json file.'')
      else Returned path)"

definition loadConfigJsonFromPath_RouterApi :: "('f, 'c) loader_env \<Rightarrow> 'c exec" where
  "loadConfigJsonFromPath_RouterApi env =
     (case configPath_RouterApi env of
        Panicked p \<Rightarrow> Panicked p
      | Returned path \<Rightarrow>
          (case Open env path of
             Inl err \<Rightarrow> Panicked (PanicError err)
           | Inr configFile \<Rightarrow>
               (case Decode env configFile of
                  (config, Some err) \<Rightarrow> Panicked (PanicError err)
                | (config, None) \<Rightarrow> Returned config)))"

definition LoadConfig_RouterApi :: "('f, RouterApiConfig) loader_env \<Rightarrow> RouterApiConfig exec" where
  "LoadConfig_RouterApi env =
     (case loadConfigJsonFromPath_RouterApi env of
        Panicked p \<Rightarrow> Panicked p
      | Returned loadedConfig \<Rightarrow>
          if Address loadedConfig = ''''
          then Panicked (PanicMessage (''missing configuration '' @ [CHR 0x27] @ ''address'' @ [CHR 0x27]))
          else if Port loadedConfig = 0
          then Panicked (PanicMessage (''missing configuration '' @ [CHR 0x27] @ ''port'' @ [CHR 0x27]))
          else if BBSAddress loadedConfig = ''''
          then Returned (loadedConfig\<lparr>BBSAddress := DEFAULT_BBS_API_URL\<rparr>)
          else Returned loadedConfig)"

fun panics :: "'a exec \<Rightarrow> bool" where
  "panics (Panicked p) = True"
| "panics (Returned x) = False"

section \<open>The certificate template of the TLS demo asset\<close>

text \<open>
  \<^verbatim>\<open>CertTemplate\<close> of the TLS site asset. A \<^verbatim>\<open>time.Time\<close> is the number of nanoseconds
  since the epoch, a \<^verbatim>\<open>*big.Int\<close> an integer. The random source and the wall clock are
  the environment: \<open>rand_Int w max\<close> is \<^verbatim>\<open>rand.Int(rand.Reader, max)\<close> and \<open>time_Now\<close>
  is \<^verbatim>\<open>time.Now()\<close>, each threading the state of the world.
\<close>

datatype SignatureAlgorithm = UnknownSignatureAlgorithm | SHA256WithRSA

record Certificate =
  SerialNumber :: int
  Organization :: "string list"
  CertSignatureAlgorithm :: SignatureAlgorithm
  NotBefore :: int
  NotAfter :: int
  BasicConstraintsValid :: bool

record 'w crypto_env =
  rand_Int :: "'w \<Rightarrow> int \<Rightarrow> (error + int) \<times> 'w"
  time_Now :: "'w \<Rightarrow> int \<times> 'w"

definition Hour :: int where
  "Hour = 3600 * 1000000000"

definition CertTemplate :: "'w crypto_env \<Rightarrow> 'w \<Rightarrow> (Certificate option \<times> error option) \<times> 'w" where
  "CertTemplate env w =
     (let serialNumberLimit = push_bit 128 (1 :: int) in
      case rand_Int env w serialNumberLimit of
        (Inl err, w1) \<Rightarrow> ((None, Some err), w1)
      | (Inr serialNumber, w1) \<Rightarrow>
          (case time_Now env w1 of
             (notBefore, w2) \<Rightarrow>
               (case time_Now env w2 of
                  (now, w3) \<Rightarrow>
                    ((Some \<lparr>SerialNumber = serialNumber,
                             Organization = [''Ninoski, Inc.''],
                             CertSignatureAlgorithm = SHA256WithRSA,
                             NotBefore = notBefore,
                             NotAfter = now + Hour,
                             BasicConstraintsValid = True\<rparr>, None), w3))))"

text \<open>
  The contract of \<^verbatim>\<open>rand.Int\<close> (crypto/rand, not part of the repository): a value it
  returns lies in \<open>[0, max)\<close>.
\<close>

definition rand_Int_in_range :: "'w crypto_env \<Rightarrow> bool" where
  "rand_Int_in_range env \<longleftrightarrow>
     (\<forall>w max n w'. rand_Int env w max = (Inr n, w') \<longrightarrow> 0 \<le> n \<and> n < max)"

text \<open>
  A world whose state is the reading of the wall clock: every reading takes one
  nanosecond, and the random source returns the serial number 7.
\<close>

definition ticking_clock :: "int crypto_env" where
  "ticking_clock = \<lparr>rand_Int = (\<lambda>w max. (Inr 7, w)), time_Now = (\<lambda>w. (w, w + 1))\<rparr>"

section \<open>The routing test: mappings and TCP echo connections\<close>

text \<open>
  The closures of the \<^verbatim>\<open>Routing Test\<close> suite. The router API, the network and the clock
  are the environment; a \<^verbatim>\<open>[]byte\<close> is a \<open>string\<close> (a list of 8-bit characters), a
  \<^verbatim>\<open>net.Conn\<close> a connection number. \<open>conn_Read w conn n\<close> is \<^verbatim>\<open>conn.Read(buff)\<close> on a
  buffer of \<open>n\<close> bytes: it yields the bytes received and the error. The types of
  cf-tcp-router (\<^verbatim>\<open>BackendHostInfo\<close>, \<^verbatim>\<open>MappingRequest\<close>) are records of their fields.
\<close>

record BackendHostInfo =
  BackendAddress :: string
  BackendPort :: "16 word"

record MappingRequest =
  ExternalPort :: "16 word"
  Backends :: "BackendHostInfo list"

definition NewBackendHostInfo :: "string \<Rightarrow> 16 word \<Rightarrow> BackendHostInfo" where
  "NewBackendHostInfo address port = \<lparr>BackendAddress = address, BackendPort = port\<rparr>"

definition NewMappingRequest :: "16 word \<Rightarrow> BackendHostInfo list \<Rightarrow> MappingRequest" where
  "NewMappingRequest externalPort backends = \<lparr>ExternalPort = externalPort, Backends = backends\<rparr>"

record 'w net_env =
  json_Marshal :: "MappingRequest list \<Rightarrow> error + string"
  http_Post :: "'w \<Rightarrow> string \<Rightarrow> string \<Rightarrow> string \<Rightarrow> (error + int) \<times> 'w"
  net_DialTimeout :: "'w \<Rightarrow> string \<Rightarrow> string \<Rightarrow> (error + nat) \<times> 'w"
  net_Dial :: "'w \<Rightarrow> string \<Rightarrow> string \<Rightarrow> (error + nat) \<times> 'w"
  conn_Write :: "'w \<Rightarrow> nat \<Rightarrow> string \<Rightarrow> error option \<times> 'w"
  conn_Read :: "'w \<Rightarrow> nat \<Rightarrow> nat \<Rightarrow> (string \<times> error option) \<times> 'w"
  conn_Close :: "'w \<Rightarrow> nat \<Rightarrow> error option \<times> 'w"
  Nanosecond :: "'w \<Rightarrow> nat \<times> 'w"

definition CONN_TYPE :: string where
  "CONN_TYPE = ''tcp''"

definition StatusOK :: int where
  "StatusOK = 200"

text \<open>\<^verbatim>\<open>uint16(port)\<close> of an \<^verbatim>\<open>int\<close>: the low 16 bits.\<close>

definition uint16 :: "int \<Rightarrow> 16 word" where
  "uint16 i = word_of_int i"

text \<open>
  \<^verbatim>\<open>configureMapping\<close>. \<open>http_Post\<close> yields the transport error or the status code of
  the response; \<open>externalIP\<close> is the suite's variable of that name.
\<close>

definition mapping_url :: "RouterApiConfig \<Rightarrow> string" where
  "mapping_url routerApiConfig =
     ''http://'' @ Address routerApiConfig @ '':'' @ Sprintf_d (uint (Port routerApiConfig))
       @ ''/v0/external_ports''"

definition configureMapping ::
  "'w net_env \<Rightarrow> RouterApiConfig \<Rightarrow> string \<Rightarrow> int \<Rightarrow> int list \<Rightarrow> 'w \<Rightarrow> unit exec \<times> 'w" where
  "configureMapping env routerApiConfig externalIP externalPort backendPorts w =
     (let backends =
            foldl (\<lambda>backends backendPort.
                     backends @ [NewBackendHostInfo externalIP (uint16 backendPort)])
              [] backendPorts;
          createMappingRequest = [NewMappingRequest (uint16 externalPort) backends]
      in case json_Marshal env createMappingRequest of
           Inl err \<Rightarrow> (Panicked GomegaFailure, w)
         | Inr payload \<Rightarrow>
             (case http_Post env w (mapping_url routerApiConfig) ''application/json'' payload of
                (Inl err, w1) \<Rightarrow> (Panicked GomegaFailure, w1)
              | (Inr statusCode, w1) \<Rightarrow>
                  if statusCode = StatusOK then (Returned (), w1)
                  else (Panicked GomegaFailure, w1)))"

text \<open>
  \<^verbatim>\<open>checkConnection\<close>: the value it sends on \<^verbatim>\<open>errChan\<close> is the result. \<open>read_into n data\<close>
  is the buffer of \<open>n\<close> zero bytes after \<^verbatim>\<open>conn.Read\<close> has stored \<open>data\<close> in it.
\<close>

definition read_into :: "nat \<Rightarrow> string \<Rightarrow> string" where
  "read_into n data = take n data @ replicate (n - length data) (CHR 0x00)"

definition checkConnection :: "'w net_env \<Rightarrow> string \<Rightarrow> string \<Rightarrow> 'w \<Rightarrow> error option \<times> 'w" where
  "checkConnection env address serverId w =
     (case net_DialTimeout env w CONN_TYPE address of
        (Inl err, w1) \<Rightarrow> (Some err, w1)
      | (Inr conn, w1) \<Rightarrow>
          (case Nanosecond env w1 of
             (nanoSeconds, w2) \<Rightarrow>
               (let message = ''Time is '' @ Sprintf_d (int nanoSeconds) in
                case conn_Write env w2 conn message of
                  (Some err, w3) \<Rightarrow> (Some err, w3)
                | (None, w3) \<Rightarrow>
                    (let expectedMessage = serverId @ '':'' @ message in
                     case conn_Read env w3 conn (length expectedMessage) of
                       ((data, Some err), w4) \<Rightarrow> (Some err, w4)
                     | ((data, None), w4) \<Rightarrow>
                         (let buff = read_into (length expectedMessage) data in
                          if buff \<noteq> expectedMessage
                          then (Some (GoError (''Message mismatch. Actual=['' @ buff
                                  @ ''], Expected=['' @ expectedMessage @ '']'')), w4)
                          else conn_Close env w4 conn)))))"

text \<open>
  \<^verbatim>\<open>verifyConnection\<close>. At any moment one \<^verbatim>\<open>checkConnection\<close> goroutine is outstanding,
  and the loop waits for its report on \<^verbatim>\<open>errChan\<close>: starting the goroutine and receiving
  its report is one call of \<open>check\<close>. The first argument of the loop is that closure.
\<close>

function verifyConnection_loop ::
  "('w \<Rightarrow> error option \<times> 'w) \<Rightarrow> nat \<Rightarrow> 'w \<Rightarrow> unit exec \<times> 'w" where
  "verifyConnection_loop check i w =
     (case check w of
        (Some err, w') \<Rightarrow>
          if i < 10 then verifyConnection_loop check (i + 1) w'
          else (Panicked GomegaFailure, w')
      | (None, w') \<Rightarrow> (Returned (), w'))"
  by pat_completeness auto
termination
  by (relation "measure (\<lambda>(check, i, w). 10 - i)") auto

definition verifyConnection ::
  "'w net_env \<Rightarrow> RouterApiConfig \<Rightarrow> int \<Rightarrow> string \<Rightarrow> 'w \<Rightarrow> unit exec \<times> 'w" where
  "verifyConnection env routerApiConfig externalPort serverId w =
     (let address = Address routerApiConfig @ '':'' @ Sprintf_d externalPort in
      verifyConnection_loop (checkConnection env address serverId) 0 w)"

text \<open>
  The load-balancing spec. \<open>Eventually_Dial env polls address\<close> is
  \<^verbatim>\<open>Eventually(func() error {...}, 20*time.Second, 1*time.Second).ShouldNot(HaveOccurred())\<close>:
  Gomega calls the function at once and then again at every interval until it returns
  nil or the time is up; \<open>polls\<close> is the number of further calls the time allows.
\<close>

definition dial_and_close :: "'w net_env \<Rightarrow> string \<Rightarrow> 'w \<Rightarrow> error option \<times> 'w" where
  "dial_and_close env address w =
     (case net_Dial env w CONN_TYPE address of
        (Inl err, w1) \<Rightarrow> (Some err, w1)
      | (Inr tmpconn, w1) \<Rightarrow> (None, snd (conn_Close env w1 tmpconn)))"

primrec Eventually_Dial :: "'w net_env \<Rightarrow> nat \<Rightarrow> string \<Rightarrow> 'w \<Rightarrow> unit exec \<times> 'w" where
  "Eventually_Dial env 0 address w =
     (case dial_and_close env address w of
        (None, w') \<Rightarrow> (Returned (), w')
      | (Some err, w') \<Rightarrow> (Panicked GomegaFailure, w'))"
| "Eventually_Dial env (Suc polls) address w =
     (case dial_and_close env address w of
        (None, w') \<Rightarrow> (Returned (), w')
      | (Some err, w') \<Rightarrow> Eventually_Dial env polls address w')"

definition sendAndReceive :: "'w net_env \<Rightarrow> string \<Rightarrow> 'w \<Rightarrow> (nat \<times> string) exec \<times> 'w" where
  "sendAndReceive env address w =
     (case net_DialTimeout env w CONN_TYPE address of
        (Inl err, w1) \<Rightarrow> (Panicked GomegaFailure, w1)
      | (Inr conn, w1) \<Rightarrow>
          (case conn_Write env w1 conn ''Hello'' of
             (Some err, w2) \<Rightarrow> (Panicked GomegaFailure, w2)
           | (None, w2) \<Rightarrow>
               (case conn_Read env w2 conn 1024 of
                  ((data, Some err), w3) \<Rightarrow> (Panicked GomegaFailure, w3)
                | ((data, None), w3) \<Rightarrow> (Returned (conn, take 1024 data), w3))))"

text \<open>
  The body of \<^verbatim>\<open>It("load balances the connections")\<close> in two parts: the mapping and the
  wait for the port (\<open>load_balances_setup\<close>, which yields the address), and the two
  exchanges with the assertions on them (\<open>load_balances_exchanges\<close>). The ports are
  those of the \<^verbatim>\<open>BeforeEach\<close>, \<open>node\<close> being \<^verbatim>\<open>GinkgoParallelNode()\<close>.
\<close>

definition load_balances_setup ::
  "'w net_env \<Rightarrow> RouterApiConfig \<Rightarrow> string \<Rightarrow> int \<Rightarrow> nat \<Rightarrow> 'w \<Rightarrow> string exec \<times> 'w" where
  "load_balances_setup env routerApiConfig externalIP node polls w =
     (let externalPort1 = 61000 + node;
          sampleReceiverPort1 = 7000 + node;
          sampleReceiverPort2 = 7500 + node
      in case configureMapping env routerApiConfig externalIP externalPort1
                [sampleReceiverPort1, sampleReceiverPort2] w of
           (Panicked p, w1) \<Rightarrow> (Panicked p, w1)
         | (Returned u, w1) \<Rightarrow>
             (let address = Address routerApiConfig @ '':'' @ Sprintf_d externalPort1 in
              case Eventually_Dial env polls address w1 of
                (Panicked p, w2) \<Rightarrow> (Panicked p, w2)
              | (Returned u', w2) \<Rightarrow> (Returned address, w2)))"

definition load_balances_exchanges :: "'w net_env \<Rightarrow> string \<Rightarrow> 'w \<Rightarrow> unit exec \<times> 'w" where
  "load_balances_exchanges env address w =
     (case sendAndReceive env address w of
        (Panicked p, w1) \<Rightarrow> (Panicked p, w1)
      | (Returned (conn1, response1), w1) \<Rightarrow>
          (case sendAndReceive env address w1 of
             (Panicked p, w2) \<Rightarrow> (Panicked p, w2)
           | (Returned (conn2, response2), w2) \<Rightarrow>
               if response1 = response2 then (Panicked GomegaFailure, w2)
               else
                 (case conn_Close env w2 conn1 of
                    (Some err, w3) \<Rightarrow> (Panicked GomegaFailure, w3)
                  | (None, w3) \<Rightarrow>
                      (case conn_Close env w3 conn2 of
                         (Some err, w4) \<Rightarrow> (Panicked GomegaFailure, w4)
                       | (None, w4) \<Rightarrow> (Returned (), w4)))))"

definition load_balances_the_connections ::
  "'w net_env \<Rightarrow> RouterApiConfig \<Rightarrow> string \<Rightarrow> int \<Rightarrow> nat \<Rightarrow> 'w \<Rightarrow> unit exec \<times> 'w" where
  "load_balances_the_connections env routerApiConfig externalIP node polls w =
     (case load_balances_setup env routerApiConfig externalIP node polls w of
        (Panicked p, w1) \<Rightarrow> (Panicked p, w1)
      | (Returned address, w1) \<Rightarrow> load_balances_exchanges env address w1)"

section \<open>The statsd specs of the routing API\<close>

text \<open>
  The specs \<^verbatim>\<open>Stats for total routes\<close>. The routing API client and the channel
  \<^verbatim>\<open>fakeStatsdChan\<close>, which a goroutine fills with the lines of the UDP packets it reads,
  are the environment. \<open>try_receive\<close> is one non-blocking receive on the channel, which
  is what Gomega's \<^verbatim>\<open>Receive\<close> matcher does each time it is tried.
\<close>

record ModificationTag =
  TagGuid :: string
  TagIndex :: "32 word"

record Route =
  Route :: string
  RoutePort :: "16 word"
  IP :: string
  TTL :: "64 word option"
  LogGuid :: string
  RouteServiceUrl :: string
  ModificationTag :: ModificationTag

text \<open>\<^verbatim>\<open>models.NewRoute\<close> of the routing API: the route with the zero modification tag.\<close>

definition NewRoute :: "string \<Rightarrow> 16 word \<Rightarrow> string \<Rightarrow> string \<Rightarrow> string \<Rightarrow> 64 word \<Rightarrow> Route" where
  "NewRoute url port ip logGuid routeServiceUrl ttl =
     \<lparr>Route = url, RoutePort = port, IP = ip, TTL = Some ttl, LogGuid = logGuid,
      RouteServiceUrl = routeServiceUrl,
      ModificationTag = \<lparr>TagGuid = [], TagIndex = 0\<rparr>\<rparr>"

datatype chan_poll = Received string | ChanEmpty | ChanClosed

record 'w stats_env =
  client_UpsertRoutes :: "'w \<Rightarrow> Route list \<Rightarrow> error option \<times> 'w"
  client_DeleteRoutes :: "'w \<Rightarrow> Route list \<Rightarrow> error option \<times> 'w"
  try_receive :: "'w \<Rightarrow> chan_poll \<times> 'w"

text \<open>
  \<^verbatim>\<open>Eventually(fakeStatsdChan).Should(Receive(Equal(expected)))\<close>. Gomega tries the
  matcher at once and then again at every polling interval until it succeeds or the
  time is up; \<open>polls\<close> is the number of further tries the time allows. A try that
  receives a line other than the expected one has consumed that line and fails; a try
  on a closed channel fails for good.
\<close>

primrec Eventually_Receive_Equal ::
  "'w stats_env \<Rightarrow> nat \<Rightarrow> string \<Rightarrow> 'w \<Rightarrow> unit exec \<times> 'w" where
  "Eventually_Receive_Equal env 0 expected w =
     (case try_receive env w of
        (Received line, w') \<Rightarrow>
          if line = expected then (Returned (), w') else (Panicked GomegaFailure, w')
      | (ChanEmpty, w') \<Rightarrow> (Panicked GomegaFailure, w')
      | (ChanClosed, w') \<Rightarrow> (Panicked GomegaFailure, w'))"
| "Eventually_Receive_Equal env (Suc polls) expected w =
     (case try_receive env w of
        (Received line, w') \<Rightarrow>
          if line = expected then (Returned (), w')
          else Eventually_Receive_Equal env polls expected w'
      | (ChanEmpty, w') \<Rightarrow> Eventually_Receive_Equal env polls expected w'
      | (ChanClosed, w') \<Rightarrow> (Panicked GomegaFailure, w'))"

definition total_http_routes_incremented :: string where
  "total_http_routes_incremented = ''routing_api.total_http_routes:+1|g''"

definition total_http_routes_decremented :: string where
  "total_http_routes_decremented = ''routing_api.total_http_routes:-1|g''"

text \<open>The two assertions that end both specs.\<close>

definition expect_incremented_then_decremented ::
  "'w stats_env \<Rightarrow> nat \<Rightarrow> nat \<Rightarrow> 'w \<Rightarrow> unit exec \<times> 'w" where
  "expect_incremented_then_decremented env polls1 polls2 w =
     (case Eventually_Receive_Equal env polls1 total_http_routes_incremented w of
        (Panicked p, w1) \<Rightarrow> (Panicked p, w1)
      | (Returned u, w1) \<Rightarrow>
          Eventually_Receive_Equal env polls2 total_http_routes_decremented w1)"

text \<open>\<^verbatim>\<open>It("gets statsd messages for deleted routes")\<close>; the client's errors are dropped.\<close>

definition gets_statsd_messages_for_deleted_routes ::
  "'w stats_env \<Rightarrow> nat \<Rightarrow> nat \<Rightarrow> 'w \<Rightarrow> unit exec \<times> 'w" where
  "gets_statsd_messages_for_deleted_routes env polls1 polls2 w =
     (let route1 = NewRoute ''a.b.c'' 33 ''1.1.1.1'' ''potato'' [] 55;
          w1 = snd (client_UpsertRoutes env w [route1]);
          w2 = snd (client_DeleteRoutes env w1 [route1])
      in expect_incremented_then_decremented env polls1 polls2 w2)"

text \<open>\<^verbatim>\<open>It("gets statsd messages for expired routes")\<close>: a route with a TTL of one second.\<close>

definition gets_statsd_messages_for_expired_routes ::
  "'w stats_env \<Rightarrow> nat \<Rightarrow> nat \<Rightarrow> 'w \<Rightarrow> unit exec \<times> 'w" where
  "gets_statsd_messages_for_expired_routes env polls1 polls2 w =
     (let routeExpire = NewRoute ''z.a.k'' 63 ''42.42.42.42'' ''Tomato'' [] 1;
          w1 = snd (client_UpsertRoutes env w [routeExpire])
      in expect_incremented_then_decremented env polls1 polls2 w1)"

section \<open>The etcd store of the routing API\<close>

text \<open>
  The methods of \<^verbatim>\<open>etcd\<close> (package \<^verbatim>\<open>db\<close>). The etcd client's \<^verbatim>\<open>KeysAPI\<close> is an interface:
  \<open>keysAPI_Get\<close> and \<open>keysAPI_Set\<close> thread the state of whatever implements it and
  yield what the Go calls return (every \<^verbatim>\<open>Get\<close> of the sources is recursive; the
  response of \<^verbatim>\<open>Set\<close> is dropped by every caller). A \<^verbatim>\<open>*client.Response\<close> may be nil, as
  the sources test; a response holds its node, a node its value, its child nodes and
  its modified index. The JSON codec of each model type, \<^verbatim>\<open>url.QueryEscape\<close> and
  \<^verbatim>\<open>models.NewModificationTag\<close> (a fresh UUID, or an error) complete the environment.
\<close>

datatype Node = NodeOf (Value: string) (Nodes: "Node list") (ModifiedIndex: "64 word")

record Response =
  Node :: Node

record SetOptions =
  PrevExist :: string
  PrevIndex :: "64 word"
  OptionsTTL :: "64 word"

record TcpRouteMapping =
  RouterGroupGuid :: string
  TcpExternalPort :: "16 word"
  HostPort :: "16 word"
  HostIP :: string
  TcpModificationTag :: ModificationTag
  TcpTTL :: "64 word option"

record RouterGroup =
  Guid :: string
  Name :: string
  GroupType :: string
  ReservablePorts :: string

record 's etcd =
  keysAPI_Get :: "'s \<Rightarrow> string \<Rightarrow> (Response option \<times> error option) \<times> 's"
  keysAPI_Set :: "'s \<Rightarrow> string \<Rightarrow> string \<Rightarrow> SetOptions \<Rightarrow> error option \<times> 's"
  NewModificationTag :: "'s \<Rightarrow> (error + ModificationTag) \<times> 's"
  QueryEscape :: "string \<Rightarrow> string"
  Unmarshal_Route :: "string \<Rightarrow> error + Route"
  Marshal_Route :: "Route \<Rightarrow> string"
  Unmarshal_TcpRouteMapping :: "string \<Rightarrow> error + TcpRouteMapping"
  Marshal_TcpRouteMapping :: "TcpRouteMapping \<Rightarrow> string"
  Unmarshal_RouterGroup :: "string \<Rightarrow> error + RouterGroup"
  Marshal_RouterGroup :: "RouterGroup \<Rightarrow> string"

definition TCP_MAPPING_BASE_KEY :: string where
  "TCP_MAPPING_BASE_KEY = ''/v1/tcp_routes/router_groups''"

definition HTTP_ROUTE_BASE_KEY :: string where
  "HTTP_ROUTE_BASE_KEY = ''/routes''"

definition ROUTER_GROUP_BASE_KEY :: string where
  "ROUTER_GROUP_BASE_KEY = ''/v1/router_groups''"

definition maxRetries :: nat where
  "maxRetries = 3"

text \<open>The error codes of the etcd client.\<close>

definition ErrorCodeKeyNotFound :: nat where
  "ErrorCodeKeyNotFound = 100"

definition ErrorCodeTestFailed :: nat where
  "ErrorCodeTestFailed = 101"

text \<open>\<^verbatim>\<open>cerr, ok := err.(client.Error); ok && cerr.Code == code\<close>.\<close>

fun is_client_error :: "nat \<Rightarrow> error option \<Rightarrow> bool" where
  "is_client_error code (Some (ClientError c message)) = (c = code)"
| "is_client_error code other = False"

definition Second :: "64 word" where
  "Second = 1000000000"

definition createOpts :: "64 word \<Rightarrow> SetOptions" where
  "createOpts ttl = \<lparr>PrevExist = ''false'', PrevIndex = 0, OptionsTTL = ttl * Second\<rparr>"

definition updateOptsWithTTL :: "64 word \<Rightarrow> 64 word \<Rightarrow> SetOptions" where
  "updateOptsWithTTL ttl prevIndex =
     \<lparr>PrevExist = [], PrevIndex = prevIndex, OptionsTTL = ttl * Second\<rparr>"

definition Increment :: "ModificationTag \<Rightarrow> ModificationTag" where
  "Increment tag = tag\<lparr>TagIndex := TagIndex tag + 1\<rparr>"

definition generateHttpRouteKey :: "'s etcd \<Rightarrow> Route \<Rightarrow> string" where
  "generateHttpRouteKey e route =
     HTTP_ROUTE_BASE_KEY @ ''/'' @ QueryEscape e (Route route) @ '','' @ IP route @ '':''
       @ Sprintf_d (uint (RoutePort route))"

definition generateRouterGroupKey :: "RouterGroup \<Rightarrow> string" where
  "generateRouterGroupKey routerGroup = ROUTER_GROUP_BASE_KEY @ ''/'' @ Guid routerGroup"

definition generateTcpRouteMappingKey :: "TcpRouteMapping \<Rightarrow> string" where
  "generateTcpRouteMappingKey tcpMapping =
     TCP_MAPPING_BASE_KEY @ ''/'' @ RouterGroupGuid tcpMapping @ ''/''
       @ Sprintf_d (uint (TcpExternalPort tcpMapping)) @ ''/'' @ HostIP tcpMapping @ '':''
       @ Sprintf_d (uint (HostPort tcpMapping))"

text \<open>
  The loop over child nodes that every reader runs: unmarshal each value and append
  it, leaving the loop with the error at the first value that does not unmarshal.
\<close>

fun unmarshal_nodes :: "(string \<Rightarrow> error + 'a) \<Rightarrow> Node list \<Rightarrow> 'a list \<Rightarrow> error + 'a list" where
  "unmarshal_nodes unmarshal [] results = Inr results"
| "unmarshal_nodes unmarshal (node # nodes) results =
     (case unmarshal (Value node) of
        Inl err \<Rightarrow> Inl err
      | Inr x \<Rightarrow> unmarshal_nodes unmarshal nodes (results @ [x]))"

definition ReadRoutes :: "'s etcd \<Rightarrow> 's \<Rightarrow> (Route list \<times> error option) exec \<times> 's" where
  "ReadRoutes e s =
     (case keysAPI_Get e s HTTP_ROUTE_BASE_KEY of
        ((response, Some err), s1) \<Rightarrow> (Returned ([], None), s1)
      | ((None, None), s1) \<Rightarrow> (Panicked NilPointerDereference, s1)
      | ((Some response, None), s1) \<Rightarrow>
          (case unmarshal_nodes (Unmarshal_Route e) (Nodes (Node response)) [] of
             Inl err \<Rightarrow> (Returned ([], None), s1)
           | Inr listRoutes \<Rightarrow> (Returned (listRoutes, None), s1)))"

text \<open>The two outer loops of \<^verbatim>\<open>ReadTcpRouteMappings\<close>, over the external port nodes of a
  router group node and over the router group nodes.\<close>

fun externalPort_nodes ::
  "(string \<Rightarrow> error + 'a) \<Rightarrow> Node list \<Rightarrow> 'a list \<Rightarrow> error + 'a list" where
  "externalPort_nodes unmarshal [] listMappings = Inr listMappings"
| "externalPort_nodes unmarshal (externalPortNode # nodes) listMappings =
     (case unmarshal_nodes unmarshal (Nodes externalPortNode) listMappings of
        Inl err \<Rightarrow> Inl err
      | Inr listMappings' \<Rightarrow> externalPort_nodes unmarshal nodes listMappings')"

fun routerGroup_nodes ::
  "(string \<Rightarrow> error + 'a) \<Rightarrow> Node list \<Rightarrow> 'a list \<Rightarrow> error + 'a list" where
  "routerGroup_nodes unmarshal [] listMappings = Inr listMappings"
| "routerGroup_nodes unmarshal (routerGroupNode # nodes) listMappings =
     (case externalPort_nodes unmarshal (Nodes routerGroupNode) listMappings of
        Inl err \<Rightarrow> Inl err
      | Inr listMappings' \<Rightarrow> routerGroup_nodes unmarshal nodes listMappings')"

definition ReadTcpRouteMappings ::
  "'s etcd \<Rightarrow> 's \<Rightarrow> (TcpRouteMapping list \<times> error option) exec \<times> 's" where
  "ReadTcpRouteMappings e s =
     (case keysAPI_Get e s TCP_MAPPING_BASE_KEY of
        ((tcpMappings, Some err), s1) \<Rightarrow> (Returned ([], None), s1)
      | ((None, None), s1) \<Rightarrow> (Panicked NilPointerDereference, s1)
      | ((Some tcpMappings, None), s1) \<Rightarrow>
          (case routerGroup_nodes (Unmarshal_TcpRouteMapping e) (Nodes (Node tcpMappings)) [] of
             Inl err \<Rightarrow> (Returned ([], None), s1)
           | Inr listMappings \<Rightarrow> (Returned (listMappings, None), s1)))"

definition ReadRouterGroups :: "'s etcd \<Rightarrow> 's \<Rightarrow> (RouterGroup list \<times> error option) exec \<times> 's" where
  "ReadRouterGroups e s =
     (case keysAPI_Get e s ROUTER_GROUP_BASE_KEY of
        ((response, Some err), s1) \<Rightarrow>
          if is_client_error ErrorCodeKeyNotFound (Some err) then (Returned ([], None), s1)
          else (Returned ([], Some err), s1)
      | ((None, None), s1) \<Rightarrow> (Panicked NilPointerDereference, s1)
      | ((Some response, None), s1) \<Rightarrow>
          (case unmarshal_nodes (Unmarshal_RouterGroup e) (Nodes (Node response)) [] of
             Inl err \<Rightarrow> (Returned ([], Some err), s1)
           | Inr results \<Rightarrow> (Returned (results, None), s1)))"

text \<open>
  One pass through the body of the retry loop of \<^verbatim>\<open>SaveRoute\<close> ends in a \<^verbatim>\<open>break\<close>, in a
  \<^verbatim>\<open>return\<close> (or a panic), or in \<^verbatim>\<open>retries++\<close> with the route as the pass left it.
\<close>

datatype 'a iteration = Break | Return "error option exec" | Retry 'a

text \<open>\<^verbatim>\<open>// only retry on a compare and swap error\<close>: the end of the loop body.\<close>

definition retry_on_compare_and_swap :: "error option \<Rightarrow> 'a \<Rightarrow> 'a iteration" where
  "retry_on_compare_and_swap err x =
     (if is_client_error ErrorCodeTestFailed err then Retry x else Return (Returned err))"

definition SaveRoute_update ::
  "'s etcd \<Rightarrow> string \<Rightarrow> Route \<Rightarrow> Response \<Rightarrow> 's \<Rightarrow> Route iteration \<times> 's" where
  "SaveRoute_update e key route response s =
     (case Unmarshal_Route e (Value (Node response)) of
        Inl err \<Rightarrow> (Return (Returned (Some err)), s)
      | Inr existingRoute \<Rightarrow>
          (let route' = route\<lparr>ModificationTag := Increment (ModificationTag existingRoute)\<rparr>;
               routeJSON = Marshal_Route e route'
           in case TTL route' of
                None \<Rightarrow> (Return (Panicked NilPointerDereference), s)
              | Some ttl \<Rightarrow>
                  (case keysAPI_Set e s key routeJSON
                          (updateOptsWithTTL ttl (ModifiedIndex (Node response))) of
                     (None, s1) \<Rightarrow> (Break, s1)
                   | (Some err, s1) \<Rightarrow> (retry_on_compare_and_swap (Some err) route', s1))))"

definition SaveRoute_create ::
  "'s etcd \<Rightarrow> string \<Rightarrow> Route \<Rightarrow> nat \<Rightarrow> 's \<Rightarrow> Route iteration \<times> 's" where
  "SaveRoute_create e key route retries s =
     (if retries > 0 then (Return (Returned (Some ErrorConflict)), s)
      else
        (case NewModificationTag e s of
           (Inl err, s1) \<Rightarrow> (Return (Returned (Some err)), s1)
         | (Inr tag, s1) \<Rightarrow>
             (let route' = route\<lparr>ModificationTag := tag\<rparr>;
                  routeJSON = Marshal_Route e route'
              in case TTL route' of
                   None \<Rightarrow> (Return (Panicked NilPointerDereference), s1)
                 | Some ttl \<Rightarrow>
                     (case keysAPI_Set e s1 key routeJSON (createOpts ttl) of
                        (None, s2) \<Rightarrow> (Break, s2)
                      | (Some err, s2) \<Rightarrow> (retry_on_compare_and_swap (Some err) route', s2)))))"

definition SaveRoute_iteration ::
  "'s etcd \<Rightarrow> string \<Rightarrow> Route \<Rightarrow> nat \<Rightarrow> 's \<Rightarrow> Route iteration \<times> 's" where
  "SaveRoute_iteration e key route retries s =
     (case keysAPI_Get e s key of
        ((Some response, None), s1) \<Rightarrow> SaveRoute_update e key route response s1
      | ((response, err), s1) \<Rightarrow>
          if is_client_error ErrorCodeKeyNotFound err
          then SaveRoute_create e key route retries s1
          else (retry_on_compare_and_swap err route, s1))"

definition SaveRoute_after_loop :: "nat \<Rightarrow> error option" where
  "SaveRoute_after_loop retries = (if retries > maxRetries then Some ErrorConflict else None)"

function SaveRoute_loop ::
  "'s etcd \<Rightarrow> string \<Rightarrow> Route \<Rightarrow> nat \<Rightarrow> 's \<Rightarrow> error option exec \<times> 's" where
  "SaveRoute_loop e key route retries s =
     (if retries \<le> maxRetries
      then (case SaveRoute_iteration e key route retries s of
              (Break, s') \<Rightarrow> (Returned (SaveRoute_after_loop retries), s')
            | (Return outcome, s') \<Rightarrow> (outcome, s')
            | (Retry route', s') \<Rightarrow> SaveRoute_loop e key route' (retries + 1) s')
      else (Returned (SaveRoute_after_loop retries), s))"
  by pat_completeness auto
termination
  by (relation "measure (\<lambda>(e, key, route, retries, s). maxRetries + 1 - retries)") auto

definition SaveRoute :: "'s etcd \<Rightarrow> Route \<Rightarrow> 's \<Rightarrow> error option exec \<times> 's" where
  "SaveRoute e route s = SaveRoute_loop e (generateHttpRouteKey e route) route 0 s"

text \<open>
  \<^verbatim>\<open>SaveTcpRouteMapping\<close>: the same loop, but a pass returns nil as soon as its error is
  nil, and the loop, once left, returns \<^verbatim>\<open>ErrorConflict\<close>.
\<close>

definition return_when_successful :: "error option \<Rightarrow> 'a \<Rightarrow> 'a iteration" where
  "return_when_successful err x =
     (if err = None then Return (Returned None) else retry_on_compare_and_swap err x)"

definition SaveTcpRouteMapping_update ::
  "'s etcd \<Rightarrow> string \<Rightarrow> TcpRouteMapping \<Rightarrow> Response \<Rightarrow> 's \<Rightarrow> TcpRouteMapping iteration \<times> 's" where
  "SaveTcpRouteMapping_update e key tcpMapping response s =
     (case Unmarshal_TcpRouteMapping e (Value (Node response)) of
        Inl err \<Rightarrow> (Return (Returned (Some err)), s)
      | Inr existingTcpRouteMapping \<Rightarrow>
          (let tcpMapping' = tcpMapping\<lparr>TcpModificationTag :=
                 Increment (TcpModificationTag existingTcpRouteMapping)\<rparr>;
               tcpRouteJSON = Marshal_TcpRouteMapping e tcpMapping'
           in case TcpTTL tcpMapping' of
                None \<Rightarrow> (Return (Panicked NilPointerDereference), s)
              | Some ttl \<Rightarrow>
                  (case keysAPI_Set e s key tcpRouteJSON
                          (updateOptsWithTTL ttl (ModifiedIndex (Node response))) of
                     (err, s1) \<Rightarrow> (return_when_successful err tcpMapping', s1))))"

definition SaveTcpRouteMapping_create ::
  "'s etcd \<Rightarrow> string \<Rightarrow> TcpRouteMapping \<Rightarrow> nat \<Rightarrow> 's \<Rightarrow> TcpRouteMapping iteration \<times> 's" where
  "SaveTcpRouteMapping_create e key tcpMapping retries s =
     (if retries > 0 then (Return (Returned (Some ErrorConflict)), s)
      else
        (case NewModificationTag e s of
           (Inl err, s1) \<Rightarrow> (Return (Returned (Some err)), s1)
         | (Inr tag, s1) \<Rightarrow>
             (let tcpMapping' = tcpMapping\<lparr>TcpModificationTag := tag\<rparr>;
                  tcpRouteMappingJSON = Marshal_TcpRouteMapping e tcpMapping'
              in case TcpTTL tcpMapping' of
                   None \<Rightarrow> (Return (Panicked NilPointerDereference), s1)
                 | Some ttl \<Rightarrow>
                     (case keysAPI_Set e s1 key tcpRouteMappingJSON (createOpts ttl) of
                        (err, s2) \<Rightarrow> (return_when_successful err tcpMapping', s2)))))"

definition SaveTcpRouteMapping_iteration ::
  "'s etcd \<Rightarrow> string \<Rightarrow> TcpRouteMapping \<Rightarrow> nat \<Rightarrow> 's \<Rightarrow> TcpRouteMapping iteration \<times> 's" where
  "SaveTcpRouteMapping_iteration e key tcpMapping retries s =
     (case keysAPI_Get e s key of
        ((Some response, None), s1) \<Rightarrow> SaveTcpRouteMapping_update e key tcpMapping response s1
      | ((response, err), s1) \<Rightarrow>
          if is_client_error ErrorCodeKeyNotFound err
          then SaveTcpRouteMapping_create e key tcpMapping retries s1
          else (return_when_successful err tcpMapping, s1))"

function SaveTcpRouteMapping_loop ::
  "'s etcd \<Rightarrow> string \<Rightarrow> TcpRouteMapping \<Rightarrow> nat \<Rightarrow> 's \<Rightarrow> error option exec \<times> 's" where
  "SaveTcpRouteMapping_loop e key tcpMapping retries s =
     (if retries \<le> maxRetries
      then (case SaveTcpRouteMapping_iteration e key tcpMapping retries s of
              (Break, s') \<Rightarrow> (Returned (Some ErrorConflict), s')
            | (Return outcome, s') \<Rightarrow> (outcome, s')
            | (Retry tcpMapping', s') \<Rightarrow>
                SaveTcpRouteMapping_loop e key tcpMapping' (retries + 1) s')
      else (Returned (Some ErrorConflict), s))"
  by pat_completeness auto
termination
  by (relation "measure (\<lambda>(e, key, tcpMapping, retries, s). maxRetries + 1 - retries)") auto

definition SaveTcpRouteMapping ::
  "'s etcd \<Rightarrow> TcpRouteMapping \<Rightarrow> 's \<Rightarrow> error option exec \<times> 's" where
  "SaveTcpRouteMapping e tcpMapping s =
     SaveTcpRouteMapping_loop e (generateTcpRouteMappingKey tcpMapping) tcpMapping 0 s"

text \<open>\<^verbatim>\<open>SaveRouterGroup\<close>; \<open>store_RouterGroup\<close> is its last three lines, the write.\<close>

definition store_RouterGroup :: "'s etcd \<Rightarrow> string \<Rightarrow> RouterGroup \<Rightarrow> 's \<Rightarrow> error option exec \<times> 's" where
  "store_RouterGroup e key routerGroup s =
     (case keysAPI_Set e s key (Marshal_RouterGroup e routerGroup)
             \<lparr>PrevExist = [], PrevIndex = 0, OptionsTTL = 0\<rparr> of
        (err, s1) \<Rightarrow> (Returned err, s1))"

definition SaveRouterGroup :: "'s etcd \<Rightarrow> RouterGroup \<Rightarrow> 's \<Rightarrow> error option exec \<times> 's" where
  "SaveRouterGroup e routerGroup s =
     (if Guid routerGroup = []
      then (Returned (Some (GoError ''Invalid router group: missing guid'')), s)
      else
        (case ReadRouterGroups e s of
           (Panicked p, s1) \<Rightarrow> (Panicked p, s1)
         | (Returned (routerGroups, Some err), s1) \<Rightarrow> (Returned (Some err), s1)
         | (Returned (routerGroups, None), s1) \<Rightarrow>
             (case find (\<lambda>rg. Guid rg \<noteq> Guid routerGroup \<and> Name rg = Name routerGroup)
                     routerGroups of
                Some rg \<Rightarrow>
                  (Returned (Some (DBError UniqueField
                     (''The RouterGroup with name: '' @ Name routerGroup @ '' already exists''))), s1)
              | None \<Rightarrow>
                  (let key = generateRouterGroupKey routerGroup in
                   case keysAPI_Get e s1 key of
                     ((rg, Some err), s2) \<Rightarrow> store_RouterGroup e key routerGroup s2
                   | ((None, None), s2) \<Rightarrow> (Panicked NilPointerDereference, s2)
                   | ((Some rg, None), s2) \<Rightarrow>
                       (case Unmarshal_RouterGroup e (Value (Node rg)) of
                          Inl err \<Rightarrow> (Returned (Some err), s2)
                        | Inr current \<Rightarrow>
                            if Name routerGroup \<noteq> Name current
                            then (Returned (Some (DBError NonUpdatableField
                                    ''The RouterGroup Name cannot be updated'')), s2)
                            else store_RouterGroup e key routerGroup s2)))))"

section \<open>Observing the environment\<close>

text \<open>
  The claims speak of what a call does to its environment: how often it connects, what
  it posts, which lines it receives, whether it writes to etcd. An environment is made
  observable by pairing its state with a log that the observed operation appends to;
  every other operation passes through. The theorems below show, with each property of
  a log, that the observed run and the plain run end with the same outcome.
\<close>

text \<open>The requests given to \<^verbatim>\<open>http.Post\<close>: URL, content type and body.\<close>

definition recording_posts :: "'w net_env \<Rightarrow> ('w \<times> (string \<times> string \<times> string) list) net_env" where
  "recording_posts env =
     \<lparr>json_Marshal = json_Marshal env,
      http_Post = (\<lambda>(w, posts) url contentType body.
         case http_Post env w url contentType body of
           (r, w') \<Rightarrow> (r, (w', posts @ [(url, contentType, body)]))),
      net_DialTimeout = (\<lambda>(w, posts) network address.
         case net_DialTimeout env w network address of (r, w') \<Rightarrow> (r, (w', posts))),
      net_Dial = (\<lambda>(w, posts) network address.
         case net_Dial env w network address of (r, w') \<Rightarrow> (r, (w', posts))),
      conn_Write = (\<lambda>(w, posts) conn message.
         case conn_Write env w conn message of (r, w') \<Rightarrow> (r, (w', posts))),
      conn_Read = (\<lambda>(w, posts) conn n.
         case conn_Read env w conn n of (r, w') \<Rightarrow> (r, (w', posts))),
      conn_Close = (\<lambda>(w, posts) conn.
         case conn_Close env w conn of (r, w') \<Rightarrow> (r, (w', posts))),
      Nanosecond = (\<lambda>(w, posts).
         case Nanosecond env w of (r, w') \<Rightarrow> (r, (w', posts)))\<rparr>"

text \<open>The reports of the successive \<^verbatim>\<open>checkConnection\<close> goroutines, in order.\<close>

definition reporting ::
  "('w \<Rightarrow> error option \<times> 'w) \<Rightarrow> 'w \<times> error option list
     \<Rightarrow> error option \<times> 'w \<times> error option list" where
  "reporting check = (\<lambda>(w, reports). case check w of (r, w') \<Rightarrow> (r, (w', reports @ [r])))"

text \<open>The lines received from \<^verbatim>\<open>fakeStatsdChan\<close>, in order.\<close>

definition receiving :: "'w stats_env \<Rightarrow> ('w \<times> string list) stats_env" where
  "receiving env =
     \<lparr>client_UpsertRoutes = (\<lambda>(w, received) routes.
         case client_UpsertRoutes env w routes of (r, w') \<Rightarrow> (r, (w', received))),
      client_DeleteRoutes = (\<lambda>(w, received) routes.
         case client_DeleteRoutes env w routes of (r, w') \<Rightarrow> (r, (w', received))),
      try_receive = (\<lambda>(w, received).
         case try_receive env w of
           (Received line, w') \<Rightarrow> (Received line, (w', received @ [line]))
         | (ChanEmpty, w') \<Rightarrow> (ChanEmpty, (w', received))
         | (ChanClosed, w') \<Rightarrow> (ChanClosed, (w', received)))\<rparr>"

section \<open>Concrete environments\<close>

text \<open>
  Small environments on which the theorems are instantiated. A complete configuration,
  a loader environment that serves it, one whose decoder fills every field but reports
  a type error on the way, and one in which the environment variable is not set.
\<close>

definition complete_Config :: Config where
  "complete_Config =
     \<lparr>ApiEndpoint = ''api.bosh-lite.com'', AppsDomain = ''bosh-lite.com'',
      SkipSSLValidation = True\<rparr>"

definition complete_RoutingConfig :: RoutingConfig where
  "complete_RoutingConfig =
     \<lparr>EmbeddedConfig = None, RoutingApiUrl = [], Addresses = [''10.244.14.2''],
      OAuth = Some \<lparr>TokenEndpoint = ''https://uaa.bosh-lite.com'', ClientName = ''tcp_emitter'',
                    ClientSecret = ''tcp-emitter-secret'', OAuthPort = 443\<rparr>,
      IncludeHttpRoutes = False, TcpAppDomain = ''tcp.bosh-lite.com'', LBConfigured = False\<rparr>"

definition complete_RouterApiConfig :: RouterApiConfig where
  "complete_RouterApiConfig = \<lparr>Address = ''10.244.8.2'', Port = 9999, BBSAddress = []\<rparr>"

definition serving_env :: "'c \<Rightarrow> (unit, 'c) loader_env" where
  "serving_env config =
     \<lparr>Getenv = (\<lambda>name. ''/tmp/config.json''), Open = (\<lambda>path. Inr ()),
      Decode = (\<lambda>file. (config, None))\<rparr>"

definition mistyped_field_env :: "'c \<Rightarrow> (unit, 'c) loader_env" where
  "mistyped_field_env config =
     \<lparr>Getenv = (\<lambda>name. ''/tmp/config.json''), Open = (\<lambda>path. Inr ()),
      Decode = (\<lambda>file. (config,
                  Some (GoError ''json: cannot unmarshal string into Go value of type bool'')))\<rparr>"

definition unset_variable_env :: "'c \<Rightarrow> (unit, 'c) loader_env" where
  "unset_variable_env config =
     \<lparr>Getenv = (\<lambda>name. []), Open = (\<lambda>path. Inr ()), Decode = (\<lambda>file. (config, None))\<rparr>"

text \<open>
  Networks for the routing test. The state of \<open>echo_server\<close> is the last message
  written: the server answers with its id, a colon and that message, the router API
  accepts every mapping, and the clock reads 42 nanoseconds. \<open>refusing_network\<close> counts
  the connections it refuses. \<open>two_backends\<close> counts the connections made and answers
  every other one from the second backend.
\<close>

definition echo_server :: "string \<Rightarrow> string net_env" where
  "echo_server serverId =
     \<lparr>json_Marshal = (\<lambda>requests. Inr ''[{}]''),
      http_Post = (\<lambda>w url contentType body. (Inr 200, w)),
      net_DialTimeout = (\<lambda>w network address. (Inr 1, w)),
      net_Dial = (\<lambda>w network address. (Inr 1, w)),
      conn_Write = (\<lambda>w conn message. (None, message)),
      conn_Read = (\<lambda>w conn n. ((take n (serverId @ '':'' @ w), None), w)),
      conn_Close = (\<lambda>w conn. (None, w)),
      Nanosecond = (\<lambda>w. (42, w))\<rparr>"

definition refusing_network :: "nat net_env" where
  "refusing_network =
     \<lparr>json_Marshal = (\<lambda>requests. Inr ''[{}]''),
      http_Post = (\<lambda>w url contentType body. (Inr 200, w)),
      net_DialTimeout = (\<lambda>w network address. (Inl (GoError ''connection refused''), w + 1)),
      net_Dial = (\<lambda>w network address. (Inl (GoError ''connection refused''), w + 1)),
      conn_Write = (\<lambda>w conn message. (None, w)),
      conn_Read = (\<lambda>w conn n. (([], None), w)),
      conn_Close = (\<lambda>w conn. (None, w)),
      Nanosecond = (\<lambda>w. (42, w))\<rparr>"

definition two_backends :: "nat net_env" where
  "two_backends =
     \<lparr>json_Marshal = (\<lambda>requests. Inr ''[{}]''),
      http_Post = (\<lambda>w url contentType body. (Inr 200, w)),
      net_DialTimeout = (\<lambda>w network address. (Inr (w + 1), w + 1)),
      net_Dial = (\<lambda>w network address. (Inr 0, w)),
      conn_Write = (\<lambda>w conn message. (None, w)),
      conn_Read = (\<lambda>w conn n.
         ((if even conn then ''serverId4:Hello'' else ''serverId3:Hello'', None), w)),
      conn_Close = (\<lambda>w conn. (None, w)),
      Nanosecond = (\<lambda>w. (42, w))\<rparr>"

text \<open>
  A statsd channel that delivers the lines of its state, one per receive, and is closed
  after the last; the routing API client does nothing that the test can see.
\<close>

definition scripted_statsd :: "string list stats_env" where
  "scripted_statsd =
     \<lparr>client_UpsertRoutes = (\<lambda>w routes. (None, w)),
      client_DeleteRoutes = (\<lambda>w routes. (None, w)),
      try_receive = (\<lambda>w. case w of [] \<Rightarrow> (ChanClosed, []) | line # rest \<Rightarrow> (Received line, rest))\<rparr>"

text \<open>The calls made on the etcd \<^verbatim>\<open>KeysAPI\<close>, each with what it returned.\<close>

datatype etcd_call =
    GetCall string "Response option" "error option"
  | SetCall string string SetOptions "error option"

fun is_Get :: "etcd_call \<Rightarrow> bool" where
  "is_Get (GetCall key response err) = True"
| "is_Get (SetCall key val opts err) = False"

fun reported :: "etcd_call \<Rightarrow> error option" where
  "reported (GetCall key response err) = err"
| "reported (SetCall key val opts err) = err"

definition logging :: "'s etcd \<Rightarrow> ('s \<times> etcd_call list) etcd" where
  "logging e =
     \<lparr>keysAPI_Get = (\<lambda>(s, calls) key.
         case keysAPI_Get e s key of
           ((response, err), s') \<Rightarrow>
             ((response, err), (s', calls @ [GetCall key response err]))),
      keysAPI_Set = (\<lambda>(s, calls) key val opts.
         case keysAPI_Set e s key val opts of
           (err, s') \<Rightarrow> (err, (s', calls @ [SetCall key val opts err]))),
      NewModificationTag = (\<lambda>(s, calls).
         case NewModificationTag e s of (r, s') \<Rightarrow> (r, (s', calls))),
      QueryEscape = QueryEscape e,
      Unmarshal_Route = Unmarshal_Route e,
      Marshal_Route = Marshal_Route e,
      Unmarshal_TcpRouteMapping = Unmarshal_TcpRouteMapping e,
      Marshal_TcpRouteMapping = Marshal_TcpRouteMapping e,
      Unmarshal_RouterGroup = Unmarshal_RouterGroup e,
      Marshal_RouterGroup = Marshal_RouterGroup e\<rparr>"

text \<open>
  Stores for the etcd methods. All share a toy codec: a router group is stored as its
  two-character guid followed by its name, a value starting with \<open>!\<close> does not
  unmarshal, and every other route or mapping value unmarshals to a fixed one.
  \<open>memory_etcd\<close> keeps its keys and values in a list and lists them all under the
  router group directory; in \<open>contended_etcd\<close> the key exists and every write loses
  the compare-and-swap; \<open>unreachable_etcd\<close> answers every call with an error.
\<close>

definition toy_codec ::
  "('s \<Rightarrow> string \<Rightarrow> (Response option \<times> error option) \<times> 's)
   \<Rightarrow> ('s \<Rightarrow> string \<Rightarrow> string \<Rightarrow> SetOptions \<Rightarrow> error option \<times> 's) \<Rightarrow> 's etcd" where
  "toy_codec get put =
     \<lparr>keysAPI_Get = get,
      keysAPI_Set = put,
      NewModificationTag = (\<lambda>s. (Inr \<lparr>TagGuid = ''fresh'', TagIndex = 0\<rparr>, s)),
      QueryEscape = (\<lambda>route. route),
      Unmarshal_Route = (\<lambda>v. if take 1 v = ''!'' then Inl (GoError ''invalid character'')
                             else Inr (NewRoute ''a.b.c'' 33 ''1.1.1.1'' ''potato'' [] 55)),
      Marshal_Route = (\<lambda>route. ''{route}''),
      Unmarshal_TcpRouteMapping =
        (\<lambda>v. if take 1 v = ''!'' then Inl (GoError ''invalid character'')
             else Inr \<lparr>RouterGroupGuid = ''g1'', TcpExternalPort = 52000, HostPort = 60000,
                       HostIP = ''1.2.3.4'',
                       TcpModificationTag = \<lparr>TagGuid = ''old'', TagIndex = 0\<rparr>,
                       TcpTTL = Some 55\<rparr>),
      Marshal_TcpRouteMapping = (\<lambda>mapping. ''{mapping}''),
      Unmarshal_RouterGroup =
        (\<lambda>v. if take 1 v = ''!'' then Inl (GoError ''invalid character'')
             else Inr \<lparr>Guid = take 2 v, Name = drop 2 v, GroupType = ''tcp'',
                       ReservablePorts = ''1024-65535''\<rparr>),
      Marshal_RouterGroup = (\<lambda>routerGroup. Guid routerGroup @ Name routerGroup)\<rparr>"

definition memory_etcd :: "(string \<times> string) list etcd" where
  "memory_etcd =
     toy_codec
       (\<lambda>s key.
          if key = ROUTER_GROUP_BASE_KEY \<or> key = HTTP_ROUTE_BASE_KEY
          then ((Some \<lparr>Node = NodeOf [] (map (\<lambda>(k, v). NodeOf v [] 1) s) 1\<rparr>, None), s)
          else (case map_of s key of
                  Some v \<Rightarrow> ((Some \<lparr>Node = NodeOf v [] 1\<rparr>, None), s)
                | None \<Rightarrow> ((None, Some (ClientError 100 ''Key not found'')), s)))
       (\<lambda>s key val opts. (None, (key, val) # s))"

definition contended_etcd :: "nat etcd" where
  "contended_etcd =
     toy_codec
       (\<lambda>s key. ((Some \<lparr>Node = NodeOf ''{route}'' [] (of_nat s)\<rparr>, None), s))
       (\<lambda>s key val opts. (Some (ClientError 101 ''Compare failed''), s + 1))"

definition unreachable_etcd :: "nat etcd" where
  "unreachable_etcd =
     toy_codec
       (\<lambda>s key. ((None, Some (GoError ''client: etcd cluster is unavailable'')), s + 1))
       (\<lambda>s key val opts. (Some (GoError ''client: etcd cluster is unavailable''), s + 1))"

text \<open>
  In the log of calls: a compare-and-swap failure is a call that reported a
  \<^verbatim>\<open>client.Error\<close> with code \<^verbatim>\<open>ErrorCodeTestFailed\<close>; the key was not found when a \<^verbatim>\<open>Get\<close>
  reported one with code \<^verbatim>\<open>ErrorCodeKeyNotFound\<close>.
\<close>

definition cas_failed :: "etcd_call \<Rightarrow> bool" where
  "cas_failed call = is_client_error ErrorCodeTestFailed (reported call)"

definition key_not_found :: "etcd_call \<Rightarrow> bool" where
  "key_not_found call = (is_Get call \<and> is_client_error ErrorCodeKeyNotFound (reported call))"

section \<open>Theorems: the configuration loaders\<close>

declare digits.simps [simp del]
declare verifyConnection_loop.simps [simp del]
declare SaveRoute_loop.simps [simp del]
declare SaveTcpRouteMapping_loop.simps [simp del]

lemma loadConfigJsonFromPath_Returned:
  "loadConfigJsonFromPath env = Returned loaded \<longleftrightarrow>
     Getenv env ''CONFIG'' \<noteq> [] \<and>
     (\<exists>file. Open env (Getenv env ''CONFIG'') = Inr file \<and> Decode env file = (loaded, None))"
  by (auto simp: loadConfigJsonFromPath_def configPath_def Let_def
      split: exec.splits sum.splits prod.splits option.splits if_splits)

lemma loadConfigJsonFromPath_Panicked:
  "panics (loadConfigJsonFromPath env) \<longleftrightarrow>
     Getenv env ''CONFIG'' = []
     \<or> (\<exists>err. Open env (Getenv env ''CONFIG'') = Inl err)
     \<or> (\<exists>file loaded err. Open env (Getenv env ''CONFIG'') = Inr file
           \<and> Decode env file = (loaded, Some err))"
  by (auto simp: loadConfigJsonFromPath_def configPath_def Let_def
      split: exec.splits sum.splits prod.splits option.splits if_splits)

lemma loadConfigJsonFromPath_RouterApi_Returned:
  "loadConfigJsonFromPath_RouterApi env = Returned loaded \<longleftrightarrow>
     Getenv env ''ROUTER_API_CONFIG'' \<noteq> [] \<and>
     (\<exists>file. Open env (Getenv env ''ROUTER_API_CONFIG'') = Inr file
         \<and> Decode env file = (loaded, None))"
  by (auto simp: loadConfigJsonFromPath_RouterApi_def configPath_RouterApi_def Let_def
      split: exec.splits sum.splits prod.splits option.splits if_splits)

lemma loadConfigJsonFromPath_RouterApi_Panicked:
  "panics (loadConfigJsonFromPath_RouterApi env) \<longleftrightarrow>
     Getenv env ''ROUTER_API_CONFIG'' = []
     \<or> (\<exists>err. Open env (Getenv env ''ROUTER_API_CONFIG'') = Inl err)
     \<or> (\<exists>file loaded err. Open env (Getenv env ''ROUTER_API_CONFIG'') = Inr file
           \<and> Decode env file = (loaded, Some err))"
  by (auto simp: loadConfigJsonFromPath_RouterApi_def configPath_RouterApi_def Let_def
      split: exec.splits sum.splits prod.splits option.splits if_splits)

text \<open>
  Claim C2, as stated, fails: a loader also panics when no required field is missing.
  With a file whose JSON gives every required field but a string where a boolean is
  expected, the decoder fills the configuration and reports the type error, and
  \<^verbatim>\<open>loadConfigJsonFromPath\<close> panics with it; with the environment variable unset,
  \<^verbatim>\<open>configPath\<close> panics before any field is read.
\<close>

theorem LoadConfig_panics_with_every_field_present:
  "panics (LoadConfig (mistyped_field_env complete_RoutingConfig) (Returned complete_Config))
   \<and> fst (Decode (mistyped_field_env complete_RoutingConfig) ()) = complete_RoutingConfig
   \<and> OAuth complete_RoutingConfig \<noteq> None \<and> Addresses complete_RoutingConfig \<noteq> []
   \<and> AppsDomain complete_Config \<noteq> [] \<and> ApiEndpoint complete_Config \<noteq> []
   \<and> panics (LoadConfig_RouterApi (unset_variable_env complete_RouterApiConfig))
   \<and> panics (LoadConfig_RouterApi (mistyped_field_env complete_RouterApiConfig))
   \<and> Address complete_RouterApiConfig \<noteq> [] \<and> Port complete_RouterApiConfig \<noteq> 0"
  by (simp add: LoadConfig_def loadConfigJsonFromPath_def configPath_def mistyped_field_env_def
      complete_RoutingConfig_def complete_Config_def LoadConfig_RouterApi_def
      loadConfigJsonFromPath_RouterApi_def configPath_RouterApi_def unset_variable_env_def
      complete_RouterApiConfig_def)

text \<open>
  Claim C2, amended: each loader panics exactly when its configuration cannot be loaded
  (the environment variable is empty, the file cannot be opened, the JSON decoder
  reports an error, or, for \<^verbatim>\<open>helpers.LoadConfig\<close>, cf-test-helpers' \<^verbatim>\<open>config.LoadConfig\<close>
  panics) or a required field is missing from the loaded configuration: the oauth
  section is nil, the addresses list is empty, apps_domain is empty or api is empty for
  \<^verbatim>\<open>helpers.LoadConfig\<close>; address is empty or port is zero for the \<^verbatim>\<open>RouterApiConfig\<close> loader.
  Otherwise the loader returns the loaded configuration, with the routing API URL
  (respectively the default BBS address) filled in.
\<close>

theorem LoadConfig_panics_exactly_when:
  "(panics (LoadConfig env config_LoadConfig) \<longleftrightarrow>
        Getenv env ''CONFIG'' = []
      \<or> (\<exists>err. Open env (Getenv env ''CONFIG'') = Inl err)
      \<or> (\<exists>file loaded err. Open env (Getenv env ''CONFIG'') = Inr file
            \<and> Decode env file = (loaded, Some err))
      \<or> panics config_LoadConfig
      \<or> (\<exists>file loaded c. Open env (Getenv env ''CONFIG'') = Inr file
            \<and> Decode env file = (loaded, None) \<and> config_LoadConfig = Returned c
            \<and> (OAuth loaded = None \<or> Addresses loaded = [] \<or> AppsDomain c = []
                 \<or> ApiEndpoint c = [])))
   \<and> (\<forall>config. LoadConfig env config_LoadConfig = Returned config \<longrightarrow>
        (\<exists>file loaded c. Open env (Getenv env ''CONFIG'') = Inr file
            \<and> Decode env file = (loaded, None) \<and> config_LoadConfig = Returned c
            \<and> config = loaded\<lparr>EmbeddedConfig := Some c,
                                RoutingApiUrl := ''https://'' @ ApiEndpoint c\<rparr>))
   \<and> (panics (LoadConfig_RouterApi env') \<longleftrightarrow>
        Getenv env' ''ROUTER_API_CONFIG'' = []
      \<or> (\<exists>err. Open env' (Getenv env' ''ROUTER_API_CONFIG'') = Inl err)
      \<or> (\<exists>file loaded err. Open env' (Getenv env' ''ROUTER_API_CONFIG'') = Inr file
            \<and> Decode env' file = (loaded, Some err))
      \<or> (\<exists>file loaded. Open env' (Getenv env' ''ROUTER_API_CONFIG'') = Inr file
            \<and> Decode env' file = (loaded, None)
            \<and> (Address loaded = [] \<or> Port loaded = 0)))
   \<and> (\<forall>config. LoadConfig_RouterApi env' = Returned config \<longrightarrow>
        (\<exists>file loaded. Open env' (Getenv env' ''ROUTER_API_CONFIG'') = Inr file
            \<and> Decode env' file = (loaded, None)
            \<and> config = (if BBSAddress loaded = []
                         then loaded\<lparr>BBSAddress := DEFAULT_BBS_API_URL\<rparr> else loaded)))"
proof (intro conjI)
  show "panics (LoadConfig env config_LoadConfig) \<longleftrightarrow>
        Getenv env ''CONFIG'' = []
      \<or> (\<exists>err. Open env (Getenv env ''CONFIG'') = Inl err)
      \<or> (\<exists>file loaded err. Open env (Getenv env ''CONFIG'') = Inr file
            \<and> Decode env file = (loaded, Some err))
      \<or> panics config_LoadConfig
      \<or> (\<exists>file loaded c. Open env (Getenv env ''CONFIG'') = Inr file
            \<and> Decode env file = (loaded, None) \<and> config_LoadConfig = Returned c
            \<and> (OAuth loaded = None \<or> Addresses loaded = [] \<or> AppsDomain c = []
                 \<or> ApiEndpoint c = []))"
  proof (cases "loadConfigJsonFromPath env")
    case (Panicked p)
    then have "panics (loadConfigJsonFromPath env)" by simp
    with Panicked show ?thesis
      unfolding loadConfigJsonFromPath_Panicked by (auto simp: LoadConfig_def)
  next
    case (Returned loaded)
    then have ok: "Getenv env ''CONFIG'' \<noteq> []"
      "\<exists>file. Open env (Getenv env ''CONFIG'') = Inr file \<and> Decode env file = (loaded, None)"
      unfolding loadConfigJsonFromPath_Returned by simp_all
    with Returned show ?thesis
      by (cases config_LoadConfig) (auto simp: LoadConfig_def Let_def)
  qed
next
  show "\<forall>config. LoadConfig env config_LoadConfig = Returned config \<longrightarrow>
        (\<exists>file loaded c. Open env (Getenv env ''CONFIG'') = Inr file
            \<and> Decode env file = (loaded, None) \<and> config_LoadConfig = Returned c
            \<and> config = loaded\<lparr>EmbeddedConfig := Some c,
                                RoutingApiUrl := ''https://'' @ ApiEndpoint c\<rparr>)"
    by (auto simp: LoadConfig_def Let_def loadConfigJsonFromPath_Returned
        split: exec.splits if_splits)
next
  show "panics (LoadConfig_RouterApi env') \<longleftrightarrow>
        Getenv env' ''ROUTER_API_CONFIG'' = []
      \<or> (\<exists>err. Open env' (Getenv env' ''ROUTER_API_CONFIG'') = Inl err)
      \<or> (\<exists>file loaded err. Open env' (Getenv env' ''ROUTER_API_CONFIG'') = Inr file
            \<and> Decode env' file = (loaded, Some err))
      \<or> (\<exists>file loaded. Open env' (Getenv env' ''ROUTER_API_CONFIG'') = Inr file
            \<and> Decode env' file = (loaded, None)
            \<and> (Address loaded = [] \<or> Port loaded = 0))"
  proof (cases "loadConfigJsonFromPath_RouterApi env'")
    case (Panicked p)
    then have "panics (loadConfigJsonFromPath_RouterApi env')" by simp
    with Panicked show ?thesis
      unfolding loadConfigJsonFromPath_RouterApi_Panicked
      by (auto simp: LoadConfig_RouterApi_def)
  next
    case (Returned loaded)
    then have ok: "Getenv env' ''ROUTER_API_CONFIG'' \<noteq> []"
      "\<exists>file. Open env' (Getenv env' ''ROUTER_API_CONFIG'') = Inr file
          \<and> Decode env' file = (loaded, None)"
      unfolding loadConfigJsonFromPath_RouterApi_Returned by simp_all
    with Returned show ?thesis
      by (auto simp: LoadConfig_RouterApi_def)
  qed
next
  show "\<forall>config. LoadConfig_RouterApi env' = Returned config \<longrightarrow>
        (\<exists>file loaded. Open env' (Getenv env' ''ROUTER_API_CONFIG'') = Inr file
            \<and> Decode env' file = (loaded, None)
            \<and> config = (if BBSAddress loaded = []
                         then loaded\<lparr>BBSAddress := DEFAULT_BBS_API_URL\<rparr> else loaded))"
    by (auto simp: LoadConfig_RouterApi_def loadConfigJsonFromPath_RouterApi_Returned
        split: exec.splits if_splits)
qed

theorem LoadConfig_panics_exactly_when_witness:
  "\<not> panics (LoadConfig (serving_env complete_RoutingConfig) (Returned complete_Config))
   \<and> panics (LoadConfig (serving_env (complete_RoutingConfig\<lparr>OAuth := None\<rparr>))
              (Returned complete_Config))
   \<and> \<not> panics (LoadConfig_RouterApi (serving_env complete_RouterApiConfig))
   \<and> panics (LoadConfig_RouterApi (serving_env (complete_RouterApiConfig\<lparr>Port := 0\<rparr>)))"
  using LoadConfig_panics_exactly_when
          [where env = "serving_env complete_RoutingConfig"
             and config_LoadConfig = "Returned complete_Config"
             and env' = "serving_env complete_RouterApiConfig"]
        LoadConfig_panics_exactly_when
          [where env = "serving_env (complete_RoutingConfig\<lparr>OAuth := None\<rparr>)"
             and config_LoadConfig = "Returned complete_Config"
             and env' = "serving_env (complete_RouterApiConfig\<lparr>Port := 0\<rparr>)"]
  by (simp add: serving_env_def complete_RoutingConfig_def complete_Config_def
      complete_RouterApiConfig_def)

section \<open>Theorems: the certificate template\<close>

text \<open>
  What \<^verbatim>\<open>CertTemplate\<close> returns: the serial number is the value that \<^verbatim>\<open>rand.Int\<close> draws
  below \<open>2 ^ 128\<close>, \<open>NotBefore\<close> is a reading of the clock, and \<open>NotAfter\<close> is one hour
  after a second reading of the clock.
\<close>

lemma CertTemplate_fields:
  assumes "rand_Int_in_range env" and "CertTemplate env w = ((Some tmpl, err), w')"
  shows "0 \<le> SerialNumber tmpl \<and> SerialNumber tmpl < 2 ^ 128 \<and> err = None \<and>
         (\<exists>w1 w2 now. rand_Int env w (2 ^ 128) = (Inr (SerialNumber tmpl), w1)
            \<and> time_Now env w1 = (NotBefore tmpl, w2)
            \<and> time_Now env w2 = (now, w') \<and> NotAfter tmpl = now + Hour)"
proof -
  obtain r w1 where r: "rand_Int env w (2 ^ 128) = (r, w1)"
    by (cases "rand_Int env w (2 ^ 128)") auto
  obtain t1 w2 where t1: "time_Now env w1 = (t1, w2)"
    by (cases "time_Now env w1") auto
  obtain t2 w3 where t2: "time_Now env w2 = (t2, w3)"
    by (cases "time_Now env w2") auto
  from assms(2) r obtain n where n: "r = Inr n"
    by (cases r) (auto simp: CertTemplate_def)
  from assms(1) r n have range: "0 \<le> n \<and> n < 2 ^ 128"
    unfolding rand_Int_in_range_def by blast
  from assms(2) r n t1 t2 have
    "tmpl = \<lparr>SerialNumber = n, Organization = [''Ninoski, Inc.''],
       CertSignatureAlgorithm = SHA256WithRSA, NotBefore = t1, NotAfter = t2 + Hour,
       BasicConstraintsValid = True\<rparr>" "err = None" "w' = w3"
    by (auto simp: CertTemplate_def)
  with range r n t1 t2 show ?thesis by auto
qed

text \<open>
  Claim C10: every certificate template returned by \<^verbatim>\<open>CertTemplate\<close> has a serial number
  in \<open>[0, 2^128)\<close>, a \<open>NotBefore\<close> of the current time, and a \<open>NotAfter\<close> exactly one hour
  after \<open>NotBefore\<close>. The code reads the clock twice, once for each field, so the last
  part fails as soon as the clock moves between the two readings: on a clock that
  advances by one nanosecond per reading, the template returned at time 0 has
  \<open>NotBefore = 0\<close> and \<open>NotAfter\<close> one hour and one nanosecond later.
\<close>

theorem CertTemplate_validity_exceeds_hour:
  "\<exists>tmpl. CertTemplate ticking_clock 0 = ((Some tmpl, None), 2)
      \<and> SerialNumber tmpl = 7 \<and> NotBefore tmpl = 0 \<and> NotAfter tmpl = Hour + 1
      \<and> NotAfter tmpl \<noteq> NotBefore tmpl + Hour"
  by (simp add: CertTemplate_def ticking_clock_def Hour_def)

section \<open>Theorems: the routing test\<close>

lemma foldl_append_map: "foldl (\<lambda>acc x. acc @ [f x]) acc xs = acc @ map f xs"
  by (induction xs arbitrary: acc) simp_all

text \<open>
  Claim C7: \<^verbatim>\<open>configureMapping\<close> builds one mapping request, with the external port and
  one backend host-info (the external IP and the port) per given backend port, in
  order. If the request cannot be marshalled the spec fails and nothing is posted.
  Otherwise exactly one request is posted, to \<^verbatim>\<open>/v0/external_ports\<close> of the router API
  with content type \<^verbatim>\<open>application/json\<close> and the marshalled request as body, and the
  spec goes on if the answer is a response with status 200 and fails on a transport
  error or any other status.
\<close>

theorem configureMapping_posts_one_request:
  "(let request = [\<lparr>ExternalPort = uint16 externalPort,
                     Backends = map (\<lambda>backendPort. \<lparr>BackendAddress = externalIP,
                                        BackendPort = uint16 backendPort\<rparr>) backendPorts\<rparr>];
        url = ''http://'' @ Address routerApiConfig @ '':''
                @ Sprintf_d (uint (Port routerApiConfig)) @ ''/v0/external_ports''
    in (\<forall>err. json_Marshal env request = Inl err \<longrightarrow>
          configureMapping env routerApiConfig externalIP externalPort backendPorts w
            = (Panicked GomegaFailure, w)
        \<and> configureMapping (recording_posts env) routerApiConfig externalIP externalPort
              backendPorts (w, [])
            = (Panicked GomegaFailure, (w, [])))
     \<and> (\<forall>payload r w'. json_Marshal env request = Inr payload
            \<and> http_Post env w url ''application/json'' payload = (r, w') \<longrightarrow>
          configureMapping env routerApiConfig externalIP externalPort backendPorts w
            = (if r = Inr 200 then Returned () else Panicked GomegaFailure, w')
        \<and> configureMapping (recording_posts env) routerApiConfig externalIP externalPort
              backendPorts (w, [])
            = (if r = Inr 200 then Returned () else Panicked GomegaFailure,
               (w', [(url, ''application/json'', payload)]))))"
  by (auto simp: configureMapping_def recording_posts_def foldl_append_map NewMappingRequest_def
      NewBackendHostInfo_def mapping_url_def StatusOK_def Let_def split: sum.splits)

theorem configureMapping_posts_one_request_witness:
  "configureMapping (recording_posts (echo_server ''serverId1'')) complete_RouterApiConfig
       ''10.244.8.1'' 60001 [9001, 9501] ([], [])
     = (Returned (),
        ([], [(''http://10.244.8.2:9999/v0/external_ports'', ''application/json'', ''[{}]'')]))"
  using configureMapping_posts_one_request
          [where env = "echo_server ''serverId1''" and routerApiConfig = complete_RouterApiConfig
             and externalIP = "''10.244.8.1''" and externalPort = 60001
             and backendPorts = "[9001, 9501]" and w = "[]"]
  by (simp add: echo_server_def complete_RouterApiConfig_def Sprintf_d_def digits.simps
      digit_def Let_def)

lemma digit_not_NUL: "k < 10 \<Longrightarrow> digit k \<noteq> CHR 0x00"
  by (simp add: digit_def nth_Cons split: nat.splits)

lemma digits_last: "digits n \<noteq> [] \<and> last (digits n) = digit (n mod 10)"
  by (subst digits.simps, subst (2) digits.simps) simp

lemma Sprintf_d_nat: "Sprintf_d (int n) = digits n"
  by (simp add: Sprintf_d_def)

text \<open>A buffer that equals a message ending in a digit was filled by the read to its end.\<close>

lemma read_into_exact:
  assumes "e \<noteq> []" and "last e \<noteq> CHR 0x00" and "read_into (length e) data = e"
  shows "take (length e) data = e"
proof (cases "length e \<le> length data")
  case True
  with assms(3) show ?thesis by (simp add: read_into_def)
next
  case False
  then have "last (read_into (length e) data) = CHR 0x00"
    by (simp add: read_into_def)
  with assms show ?thesis by simp
qed

lemma expectedMessage_last:
  "serverId @ '':'' @ ''Time is '' @ digits n \<noteq> []
   \<and> last (serverId @ '':'' @ ''Time is '' @ digits n) \<noteq> CHR 0x00"
  using digits_last [of n] digit_not_NUL [of "n mod 10"] by simp

text \<open>
  Claim C5: \<^verbatim>\<open>checkConnection\<close> sends \<^verbatim>\<open>"Time is <n>"\<close>, \<open>n\<close> being the nanoseconds of the
  clock, and reports nil only if the connection was made, the message was written, the
  read returned no error and the bytes read are exactly the server id, a colon and the
  message sent (and the connection closed without error). The error of the dial, of
  the write or of the read, and the mismatch of the bytes read, are reported instead.
\<close>

theorem checkConnection_reports:
  "(let sent = (\<lambda>n. ''Time is '' @ Sprintf_d (int n));
        expected = (\<lambda>n. serverId @ '':'' @ ''Time is '' @ Sprintf_d (int n))
    in (checkConnection env address serverId w = (None, w') \<longrightarrow>
          (\<exists>conn w1 n w2 w3 data w4.
              net_DialTimeout env w ''tcp'' address = (Inr conn, w1)
            \<and> Nanosecond env w1 = (n, w2)
            \<and> conn_Write env w2 conn (sent n) = (None, w3)
            \<and> conn_Read env w3 conn (length (expected n)) = ((data, None), w4)
            \<and> take (length (expected n)) data = expected n
            \<and> conn_Close env w4 conn = (None, w')))
     \<and> (\<forall>err w1. net_DialTimeout env w ''tcp'' address = (Inl err, w1) \<longrightarrow>
            checkConnection env address serverId w = (Some err, w1))
     \<and> (\<forall>conn w1 n w2 err w3.
            net_DialTimeout env w ''tcp'' address = (Inr conn, w1)
          \<and> Nanosecond env w1 = (n, w2)
          \<and> conn_Write env w2 conn (sent n) = (Some err, w3) \<longrightarrow>
            checkConnection env address serverId w = (Some err, w3))
     \<and> (\<forall>conn w1 n w2 w3 data err w4.
            net_DialTimeout env w ''tcp'' address = (Inr conn, w1)
          \<and> Nanosecond env w1 = (n, w2)
          \<and> conn_Write env w2 conn (sent n) = (None, w3)
          \<and> conn_Read env w3 conn (length (expected n)) = ((data, Some err), w4) \<longrightarrow>
            checkConnection env address serverId w = (Some err, w4))
     \<and> (\<forall>conn w1 n w2 w3 data w4.
            net_DialTimeout env w ''tcp'' address = (Inr conn, w1)
          \<and> Nanosecond env w1 = (n, w2)
          \<and> conn_Write env w2 conn (sent n) = (None, w3)
          \<and> conn_Read env w3 conn (length (expected n)) = ((data, None), w4)
          \<and> read_into (length (expected n)) data \<noteq> expected n \<longrightarrow>
            checkConnection env address serverId w
              = (Some (GoError (''Message mismatch. Actual=[''
                   @ read_into (length (expected n)) data
                   @ ''], Expected=['' @ expected n @ '']'')), w4)))"
proof -
  have exact: "take (length (serverId @ '':'' @ ''Time is '' @ digits n)) data
                 = serverId @ '':'' @ ''Time is '' @ digits n"
    if "read_into (length (serverId @ '':'' @ ''Time is '' @ digits n)) data
          = serverId @ '':'' @ ''Time is '' @ digits n" for n data
    using read_into_exact [OF _ _ that] expectedMessage_last [of serverId n] by blast
  show ?thesis
    unfolding Let_def Sprintf_d_nat
    apply (intro conjI allI impI)
        apply (simp add: checkConnection_def CONN_TYPE_def Let_def Sprintf_d_nat
        split: prod.splits sum.splits option.splits if_splits)
        apply (use exact in force)
       apply (simp_all add: checkConnection_def CONN_TYPE_def Let_def Sprintf_d_nat)
    done
qed

theorem checkConnection_reports_witness:
  "checkConnection (echo_server ''serverId1'') ''10.244.8.2:60001'' ''serverId1'' []
     = (None, ''Time is 42'')
   \<and> checkConnection (echo_server ''serverId2'') ''10.244.8.2:60001'' ''serverId1'' []
     = (Some (GoError
         ''Message mismatch. Actual=[serverId2:Time is 42], Expected=[serverId1:Time is 42]''),
        ''Time is 42'')
   \<and> checkConnection refusing_network ''10.244.8.2:60001'' ''serverId1'' 0
     = (Some (GoError ''connection refused''), 1)"
  using checkConnection_reports
          [where env = "echo_server ''serverId1''" and address = "''10.244.8.2:60001''"
             and serverId = "''serverId1''" and w = "[]" and w' = "''Time is 42''"]
        checkConnection_reports
          [where env = "echo_server ''serverId2''" and address = "''10.244.8.2:60001''"
             and serverId = "''serverId1''" and w = "[]"]
        checkConnection_reports
          [where env = refusing_network and address = "''10.244.8.2:60001''"
             and serverId = "''serverId1''" and w = 0]
  by (simp add: echo_server_def refusing_network_def Sprintf_d_def digits.simps digit_def
      Let_def read_into_def checkConnection_def CONN_TYPE_def)

lemma verifyConnection_loop_reports:
  "i \<le> 10 \<Longrightarrow>
   \<exists>outcome w' new.
       verifyConnection_loop (reporting check) i (w, reports) = (outcome, (w', reports @ new))
     \<and> verifyConnection_loop check i w = (outcome, w')
     \<and> 1 \<le> length new \<and> length new \<le> 11 - i
     \<and> None \<notin> set (butlast new)
     \<and> (outcome = Returned () \<and> last new = None
          \<or> outcome = Panicked GomegaFailure \<and> last new \<noteq> None \<and> length new = 11 - i)"
proof (induction "10 - i" arbitrary: i w reports)
  case 0
  then have i: "i = 10" by simp
  obtain r w1 where c: "check w = (r, w1)" by (cases "check w") auto
  show ?case
    by (cases r)
       (simp_all add: i c reporting_def verifyConnection_loop.simps [of _ 10])
next
  case (Suc k)
  then have i: "i < 10" "k = 10 - (i + 1)" "i + 1 \<le> 10" by simp_all
  obtain r w1 where c: "check w = (r, w1)" by (cases "check w") auto
  show ?case
  proof (cases r)
    case None
    then show ?thesis
      using i(1) by (simp add: c reporting_def verifyConnection_loop.simps [of _ i])
  next
    case (Some err)
    from Suc.hyps(1) [OF i(2) i(3), of w1 "reports @ [Some err]"]
    obtain outcome w' new where
      new: "verifyConnection_loop (reporting check) (i + 1) (w1, reports @ [Some err])
              = (outcome, (w', (reports @ [Some err]) @ new))"
        "verifyConnection_loop check (i + 1) w1 = (outcome, w')"
        "1 \<le> length new" "length new \<le> 11 - (i + 1)" "None \<notin> set (butlast new)"
        "outcome = Returned () \<and> last new = None
          \<or> outcome = Panicked GomegaFailure \<and> last new \<noteq> None \<and> length new = 11 - (i + 1)"
      by blast
    from new(3) have ne: "new \<noteq> []" by auto
    have "verifyConnection_loop (reporting check) i (w, reports)
            = (outcome, (w', reports @ (Some err # new)))"
      using new(1) i(1) by (simp add: c Some reporting_def verifyConnection_loop.simps [of _ i])
    moreover have "verifyConnection_loop check i w = (outcome, w')"
      using new(2) i(1) by (simp add: c Some verifyConnection_loop.simps [of _ i])
    moreover have "1 \<le> length (Some err # new)" "length (Some err # new) \<le> 11 - i"
      using new(4) i(1) by simp_all
    moreover have "None \<notin> set (butlast (Some err # new))"
      using new(5) ne by simp
    moreover have "outcome = Returned () \<and> last (Some err # new) = None
          \<or> outcome = Panicked GomegaFailure \<and> last (Some err # new) \<noteq> None
              \<and> length (Some err # new) = 11 - i"
      using new(6) ne i(1) by auto
    ultimately show ?thesis by blast
  qed
qed

text \<open>
  Claim C3: \<^verbatim>\<open>verifyConnection\<close> always comes to an end. The reports it receives from
  \<^verbatim>\<open>checkConnection\<close>, in order, are at least one and at most 11; every report but the
  last is an error; and either the last report is nil and \<^verbatim>\<open>verifyConnection\<close> returns,
  or the last report is the error of the 11th attempt and the assertion fails.
\<close>

theorem verifyConnection_bounded:
  "\<exists>outcome w' reports.
       verifyConnection_loop
           (reporting (checkConnection env
              (Address routerApiConfig @ '':'' @ Sprintf_d externalPort) serverId)) 0 (w, [])
         = (outcome, (w', reports))
     \<and> verifyConnection env routerApiConfig externalPort serverId w = (outcome, w')
     \<and> 1 \<le> length reports \<and> length reports \<le> 11
     \<and> None \<notin> set (butlast reports)
     \<and> (outcome = Returned () \<and> last reports = None
          \<or> outcome = Panicked GomegaFailure \<and> last reports \<noteq> None \<and> length reports = 11)"
  using verifyConnection_loop_reports [of 0 "checkConnection env
              (Address routerApiConfig @ '':'' @ Sprintf_d externalPort) serverId" w "[]"]
  by (simp add: verifyConnection_def)

theorem verifyConnection_bounded_witness:
  "verifyConnection refusing_network complete_RouterApiConfig 60001 ''serverId1'' 0
     = (Panicked GomegaFailure, 11)
   \<and> verifyConnection (echo_server ''serverId1'') complete_RouterApiConfig 60001 ''serverId1'' []
     = (Returned (), ''Time is 42'')"
  using verifyConnection_bounded
          [where env = refusing_network and routerApiConfig = complete_RouterApiConfig
             and externalPort = 60001 and serverId = "''serverId1''" and w = 0]
        verifyConnection_bounded
          [where env = "echo_server ''serverId1''" and routerApiConfig = complete_RouterApiConfig
             and externalPort = 60001 and serverId = "''serverId1''" and w = "[]"]
  by (simp add: verifyConnection_def verifyConnection_loop.simps checkConnection_def
      refusing_network_def echo_server_def CONN_TYPE_def Sprintf_d_def digits.simps digit_def
      Let_def read_into_def complete_RouterApiConfig_def)

lemma uint16_distinct: "uint16 (7000 + node) \<noteq> uint16 (7500 + node)"
proof
  assume "uint16 (7000 + node) = uint16 (7500 + node)"
  then have "(7000 + node) mod 2 ^ 16 = (7500 + node) mod 2 ^ 16"
    by (simp add: uint16_def word_of_int_eq_iff take_bit_eq_mod)
  then have "(2::int) ^ 16 dvd (7500 + node) - (7000 + node)"
    by (simp add: mod_eq_dvd_iff)
  then show False by simp
qed

lemma configureMapping_Returned:
  assumes "configureMapping env routerApiConfig externalIP externalPort backendPorts w
             = (Returned (), w')"
  shows "\<exists>payload.
           json_Marshal env
             [\<lparr>ExternalPort = uint16 externalPort,
               Backends = map (\<lambda>backendPort. \<lparr>BackendAddress = externalIP,
                                  BackendPort = uint16 backendPort\<rparr>) backendPorts\<rparr>]
             = Inr payload
         \<and> http_Post env w (mapping_url routerApiConfig) ''application/json'' payload
             = (Inr 200, w')"
proof -
  let ?request = "[\<lparr>ExternalPort = uint16 externalPort,
                    Backends = map (\<lambda>backendPort. \<lparr>BackendAddress = externalIP,
                                       BackendPort = uint16 backendPort\<rparr>) backendPorts\<rparr>]"
  have unfolded: "configureMapping env routerApiConfig externalIP externalPort backendPorts w =
      (case json_Marshal env ?request of
         Inl err \<Rightarrow> (Panicked GomegaFailure, w)
       | Inr payload \<Rightarrow>
           (case http_Post env w (mapping_url routerApiConfig) ''application/json'' payload of
              (Inl err, w1) \<Rightarrow> (Panicked GomegaFailure, w1)
            | (Inr statusCode, w1) \<Rightarrow>
                if statusCode = 200 then (Returned (), w1) else (Panicked GomegaFailure, w1)))"
    unfolding configureMapping_def foldl_append_map NewMappingRequest_def
      NewBackendHostInfo_def StatusOK_def Let_def
    by simp
  show ?thesis
  proof (cases "json_Marshal env ?request")
    case (Inl err)
    with assms unfolded show ?thesis by simp
  next
    case (Inr payload)
    obtain r w1 where post:
      "http_Post env w (mapping_url routerApiConfig) ''application/json'' payload = (r, w1)"
      by (cases "http_Post env w (mapping_url routerApiConfig) ''application/json'' payload")
    with assms unfolded Inr show ?thesis
      by (cases r) (auto split: if_splits)
  qed
qed

text \<open>
  Claim C6: the load-balancing spec maps the external port \<open>61000 + node\<close> to two
  backends with distinct ports, waits until the port accepts a connection, and makes
  two send-and-receive exchanges on it, one after the other. Whenever both exchanges
  succeed with equal responses the spec fails; if the spec passes, the mapping was
  accepted with status 200 and the two exchanges returned different responses.
\<close>

theorem load_balances_requires_distinct_responses:
  "(\<forall>address w0 conn1 response1 w1 conn2 response2 w2.
        load_balances_setup env routerApiConfig externalIP node polls w = (Returned address, w0)
      \<and> sendAndReceive env address w0 = (Returned (conn1, response1), w1)
      \<and> sendAndReceive env address w1 = (Returned (conn2, response2), w2)
      \<and> response1 = response2 \<longrightarrow>
        load_balances_the_connections env routerApiConfig externalIP node polls w
          = (Panicked GomegaFailure, w2))
   \<and> (\<forall>w'. load_balances_the_connections env routerApiConfig externalIP node polls w
               = (Returned (), w') \<longrightarrow>
        (\<exists>payload wp w0 conn1 response1 w1 conn2 response2 w2.
            json_Marshal env
              [\<lparr>ExternalPort = uint16 (61000 + node),
                Backends = [\<lparr>BackendAddress = externalIP, BackendPort = uint16 (7000 + node)\<rparr>,
                            \<lparr>BackendAddress = externalIP, BackendPort = uint16 (7500 + node)\<rparr>]\<rparr>]
              = Inr payload
          \<and> http_Post env w (mapping_url routerApiConfig) ''application/json'' payload
              = (Inr 200, wp)
          \<and> Eventually_Dial env polls
                (Address routerApiConfig @ '':'' @ Sprintf_d (61000 + node)) wp
              = (Returned (), w0)
          \<and> sendAndReceive env (Address routerApiConfig @ '':'' @ Sprintf_d (61000 + node)) w0
              = (Returned (conn1, response1), w1)
          \<and> sendAndReceive env (Address routerApiConfig @ '':'' @ Sprintf_d (61000 + node)) w1
              = (Returned (conn2, response2), w2)
          \<and> response1 \<noteq> response2))
   \<and> uint16 (7000 + node) \<noteq> uint16 (7500 + node)"
proof (intro conjI allI impI)
  fix address w0 conn1 response1 w1 conn2 response2 w2
  assume "load_balances_setup env routerApiConfig externalIP node polls w = (Returned address, w0)
      \<and> sendAndReceive env address w0 = (Returned (conn1, response1), w1)
      \<and> sendAndReceive env address w1 = (Returned (conn2, response2), w2)
      \<and> response1 = response2"
  then show "load_balances_the_connections env routerApiConfig externalIP node polls w
          = (Panicked GomegaFailure, w2)"
    by (simp add: load_balances_the_connections_def load_balances_exchanges_def)
next
  fix w'
  assume pass: "load_balances_the_connections env routerApiConfig externalIP node polls w
                  = (Returned (), w')"
  then obtain address w0 where
    ready: "load_balances_setup env routerApiConfig externalIP node polls w
              = (Returned address, w0)"
    and exch: "load_balances_exchanges env address w0 = (Returned (), w')"
    by (auto simp: load_balances_the_connections_def split: prod.splits exec.splits)
  from exch obtain conn1 response1 w1 conn2 response2 w2 where
    two: "sendAndReceive env address w0 = (Returned (conn1, response1), w1)"
         "sendAndReceive env address w1 = (Returned (conn2, response2), w2)"
         "response1 \<noteq> response2"
    by (auto simp: load_balances_exchanges_def
        split: prod.splits exec.splits option.splits if_splits)
  from ready obtain wp where
    configured: "configureMapping env routerApiConfig externalIP (61000 + node)
                   [7000 + node, 7500 + node] w = (Returned (), wp)"
    and dialled: "Eventually_Dial env polls
                    (Address routerApiConfig @ '':'' @ Sprintf_d (61000 + node)) wp
                  = (Returned (), w0)"
    and address: "address = Address routerApiConfig @ '':'' @ Sprintf_d (61000 + node)"
    unfolding load_balances_setup_def Let_def
    by (auto split: prod.splits exec.splits)
  from configureMapping_Returned [OF configured] obtain payload where
    mapped: "json_Marshal env
              [\<lparr>ExternalPort = uint16 (61000 + node),
                Backends = [\<lparr>BackendAddress = externalIP, BackendPort = uint16 (7000 + node)\<rparr>,
                            \<lparr>BackendAddress = externalIP, BackendPort = uint16 (7500 + node)\<rparr>]\<rparr>]
              = Inr payload"
      "http_Post env w (mapping_url routerApiConfig) ''application/json'' payload = (Inr 200, wp)"
    by auto
  note mapped = mapped dialled address
  with two show "\<exists>payload wp w0 conn1 response1 w1 conn2 response2 w2.
            json_Marshal env
              [\<lparr>ExternalPort = uint16 (61000 + node),
                Backends = [\<lparr>BackendAddress = externalIP, BackendPort = uint16 (7000 + node)\<rparr>,
                            \<lparr>BackendAddress = externalIP, BackendPort = uint16 (7500 + node)\<rparr>]\<rparr>]
              = Inr payload
          \<and> http_Post env w (mapping_url routerApiConfig) ''application/json'' payload
              = (Inr 200, wp)
          \<and> Eventually_Dial env polls
                (Address routerApiConfig @ '':'' @ Sprintf_d (61000 + node)) wp
              = (Returned (), w0)
          \<and> sendAndReceive env (Address routerApiConfig @ '':'' @ Sprintf_d (61000 + node)) w0
              = (Returned (conn1, response1), w1)
          \<and> sendAndReceive env (Address routerApiConfig @ '':'' @ Sprintf_d (61000 + node)) w1
              = (Returned (conn2, response2), w2)
          \<and> response1 \<noteq> response2"
    by blast
next
  show "uint16 (7000 + node) \<noteq> uint16 (7500 + node)" by (rule uint16_distinct)
qed

theorem load_balances_requires_distinct_responses_witness:
  "load_balances_the_connections two_backends complete_RouterApiConfig ''10.244.8.1'' 1 0 0
     = (Returned (), 2)
   \<and> load_balances_the_connections (echo_server ''serverId3'') complete_RouterApiConfig
        ''10.244.8.1'' 1 0 []
     = (Panicked GomegaFailure, ''Hello'')"
  using load_balances_requires_distinct_responses
          [where env = two_backends and routerApiConfig = complete_RouterApiConfig
             and externalIP = "''10.244.8.1''" and node = 1 and polls = 0 and w = 0]
        load_balances_requires_distinct_responses
          [where env = "echo_server ''serverId3''" and routerApiConfig = complete_RouterApiConfig
             and externalIP = "''10.244.8.1''" and node = 1 and polls = 0 and w = "[]"]
  by (simp add: load_balances_the_connections_def load_balances_setup_def
      load_balances_exchanges_def configureMapping_def sendAndReceive_def dial_and_close_def
      two_backends_def echo_server_def StatusOK_def CONN_TYPE_def Let_def
      complete_RouterApiConfig_def)

section \<open>Theorems: the statsd specs\<close>

lemma Eventually_Receive_Equal_received:
  "\<exists>outcome w' skipped.
      Eventually_Receive_Equal env polls expected w = (outcome, w')
    \<and> expected \<notin> set skipped
    \<and> (outcome = Returned ()
          \<and> Eventually_Receive_Equal (receiving env) polls expected (w, received)
              = (outcome, (w', received @ skipped @ [expected]))
        \<or> outcome = Panicked GomegaFailure
          \<and> Eventually_Receive_Equal (receiving env) polls expected (w, received)
              = (outcome, (w', received @ skipped)))"
proof (induction polls arbitrary: w received)
  case 0
  obtain r w1 where t: "try_receive env w = (r, w1)" by (cases "try_receive env w") auto
  show ?case
  proof (cases r)
    case (Received line)
    show ?thesis
    proof (cases "line = expected")
      case True
      with t Received show ?thesis
        by (intro exI [of _ "Returned ()"] exI [of _ w1] exI [of _ "[]"])
           (simp add: receiving_def)
    next
      case False
      with t Received show ?thesis
        by (intro exI [of _ "Panicked GomegaFailure"] exI [of _ w1] exI [of _ "[line]"])
           (simp add: receiving_def)
    qed
  next
    case ChanEmpty
    with t show ?thesis
      by (intro exI [of _ "Panicked GomegaFailure"] exI [of _ w1] exI [of _ "[]"])
         (simp add: receiving_def)
  next
    case ChanClosed
    with t show ?thesis
      by (intro exI [of _ "Panicked GomegaFailure"] exI [of _ w1] exI [of _ "[]"])
         (simp add: receiving_def)
  qed
next
  case (Suc polls)
  obtain r w1 where t: "try_receive env w = (r, w1)" by (cases "try_receive env w") auto
  show ?case
  proof (cases r)
    case (Received line)
    show ?thesis
    proof (cases "line = expected")
      case True
      with t Received show ?thesis
        by (intro exI [of _ "Returned ()"] exI [of _ w1] exI [of _ "[]"])
           (simp add: receiving_def)
    next
      case False
      from Suc.IH [of w1 "received @ [line]"]
      obtain outcome w' skipped where
        ih: "Eventually_Receive_Equal env polls expected w1 = (outcome, w')"
            "expected \<notin> set skipped"
            "outcome = Returned ()
               \<and> Eventually_Receive_Equal (receiving env) polls expected (w1, received @ [line])
                  = (outcome, (w', (received @ [line]) @ skipped @ [expected]))
             \<or> outcome = Panicked GomegaFailure
               \<and> Eventually_Receive_Equal (receiving env) polls expected (w1, received @ [line])
                  = (outcome, (w', (received @ [line]) @ skipped))"
        by blast
      with t Received False show ?thesis
        by (intro exI [of _ outcome] exI [of _ w'] exI [of _ "line # skipped"])
           (auto simp: receiving_def)
    qed
  next
    case ChanEmpty
    from Suc.IH [of w1 received]
    obtain outcome w' skipped where
      ih: "Eventually_Receive_Equal env polls expected w1 = (outcome, w')"
          "expected \<notin> set skipped"
          "outcome = Returned ()
             \<and> Eventually_Receive_Equal (receiving env) polls expected (w1, received)
                = (outcome, (w', received @ skipped @ [expected]))
           \<or> outcome = Panicked GomegaFailure
             \<and> Eventually_Receive_Equal (receiving env) polls expected (w1, received)
                = (outcome, (w', received @ skipped))"
      by blast
    with t ChanEmpty show ?thesis
      by (intro exI [of _ outcome] exI [of _ w'] exI [of _ skipped])
         (auto simp: receiving_def)
  next
    case ChanClosed
    with t show ?thesis
      by (intro exI [of _ "Panicked GomegaFailure"] exI [of _ w1] exI [of _ "[]"])
         (simp add: receiving_def)
  qed
qed

lemma expect_incremented_then_decremented_received:
  "\<exists>outcome w' received'.
      expect_incremented_then_decremented env polls1 polls2 w = (outcome, w')
    \<and> expect_incremented_then_decremented (receiving env) polls1 polls2 (w, received)
        = (outcome, (w', received @ received'))
    \<and> (outcome = Returned ()
         \<and> (\<exists>before between.
               received' = before @ [total_http_routes_incremented] @ between
                  @ [total_http_routes_decremented]
             \<and> total_http_routes_incremented \<notin> set before
             \<and> total_http_routes_decremented \<notin> set between)
        \<or> outcome = Panicked GomegaFailure)"
proof -
  from Eventually_Receive_Equal_received [of env polls1 total_http_routes_incremented w received]
  obtain outcome1 w1 before where
    first: "Eventually_Receive_Equal env polls1 total_http_routes_incremented w = (outcome1, w1)"
      "total_http_routes_incremented \<notin> set before"
      "outcome1 = Returned ()
         \<and> Eventually_Receive_Equal (receiving env) polls1 total_http_routes_incremented
              (w, received)
            = (outcome1, (w1, received @ before @ [total_http_routes_incremented]))
       \<or> outcome1 = Panicked GomegaFailure
         \<and> Eventually_Receive_Equal (receiving env) polls1 total_http_routes_incremented
              (w, received)
            = (outcome1, (w1, received @ before))"
    by blast
  show ?thesis
  proof (cases "outcome1 = Returned ()")
    case False
    with first show ?thesis
      by (intro exI [of _ outcome1] exI [of _ w1] exI [of _ before])
         (auto simp: expect_incremented_then_decremented_def)
  next
    case True
    from Eventually_Receive_Equal_received [of env polls2 total_http_routes_decremented w1
        "received @ before @ [total_http_routes_incremented]"]
    obtain outcome2 w2 between where
      second: "Eventually_Receive_Equal env polls2 total_http_routes_decremented w1
                 = (outcome2, w2)"
        "total_http_routes_decremented \<notin> set between"
        "outcome2 = Returned ()
           \<and> Eventually_Receive_Equal (receiving env) polls2 total_http_routes_decremented
                (w1, received @ before @ [total_http_routes_incremented])
              = (outcome2, (w2, (received @ before @ [total_http_routes_incremented])
                                  @ between @ [total_http_routes_decremented]))
         \<or> outcome2 = Panicked GomegaFailure
           \<and> Eventually_Receive_Equal (receiving env) polls2 total_http_routes_decremented
                (w1, received @ before @ [total_http_routes_incremented])
              = (outcome2, (w2, (received @ before @ [total_http_routes_incremented])
                                  @ between))"
      by blast
    from second(3) show ?thesis
    proof
      assume ok: "outcome2 = Returned ()
           \<and> Eventually_Receive_Equal (receiving env) polls2 total_http_routes_decremented
                (w1, received @ before @ [total_http_routes_incremented])
              = (outcome2, (w2, (received @ before @ [total_http_routes_incremented])
                                  @ between @ [total_http_routes_decremented]))"
      with True first second(1,2) show ?thesis
        by (intro exI [of _ outcome2] exI [of _ w2]
              exI [of _ "before @ [total_http_routes_incremented] @ between
                  @ [total_http_routes_decremented]"])
           (auto simp: expect_incremented_then_decremented_def)
    next
      assume bad: "outcome2 = Panicked GomegaFailure
           \<and> Eventually_Receive_Equal (receiving env) polls2 total_http_routes_decremented
                (w1, received @ before @ [total_http_routes_incremented])
              = (outcome2, (w2, (received @ before @ [total_http_routes_incremented])
                                  @ between))"
      with True first second(1,2) show ?thesis
        by (intro exI [of _ outcome2] exI [of _ w2]
              exI [of _ "before @ [total_http_routes_incremented] @ between"])
           (auto simp: expect_incremented_then_decremented_def)
    qed
  qed
qed

text \<open>
  Claim C4: each of the two specs (a route upserted and deleted; a route upserted with a
  TTL of one second) passes or fails on a Gomega assertion, and when it passes, the
  lines it received from the fake statsd channel are, in order: lines other than
  \<^verbatim>\<open>routing_api.total_http_routes:+1|g\<close>, that line, lines other than
  \<^verbatim>\<open>routing_api.total_http_routes:-1|g\<close>, and that line last. So the spec passes only if
  the increment is received strictly before the decrement.
\<close>

theorem statsd_incremented_before_decremented:
  "(\<exists>outcome w' received.
       gets_statsd_messages_for_deleted_routes env polls polls' w = (outcome, w')
     \<and> gets_statsd_messages_for_deleted_routes (receiving env) polls polls' (w, [])
         = (outcome, (w', received))
     \<and> (outcome = Returned ()
          \<and> (\<exists>before between.
                received = before @ [total_http_routes_incremented] @ between
                   @ [total_http_routes_decremented]
              \<and> total_http_routes_incremented \<notin> set before
              \<and> total_http_routes_decremented \<notin> set between)
         \<or> outcome = Panicked GomegaFailure))
   \<and> (\<exists>outcome w' received.
       gets_statsd_messages_for_expired_routes env polls polls' w = (outcome, w')
     \<and> gets_statsd_messages_for_expired_routes (receiving env) polls polls' (w, [])
         = (outcome, (w', received))
     \<and> (outcome = Returned ()
          \<and> (\<exists>before between.
                received = before @ [total_http_routes_incremented] @ between
                   @ [total_http_routes_decremented]
              \<and> total_http_routes_incremented \<notin> set before
              \<and> total_http_routes_decremented \<notin> set between)
         \<or> outcome = Panicked GomegaFailure))"
proof -
  have up: "snd (client_UpsertRoutes (receiving env) (w, rs) routes)
              = (snd (client_UpsertRoutes env w routes), rs)"
    and del: "snd (client_DeleteRoutes (receiving env) (w, rs) routes)
              = (snd (client_DeleteRoutes env w routes), rs)" for w rs routes
    by (simp_all add: receiving_def split: prod.splits)
  show ?thesis
    unfolding gets_statsd_messages_for_deleted_routes_def
      gets_statsd_messages_for_expired_routes_def Let_def up del
    using expect_incremented_then_decremented_received [of env polls polls' _ "[]"]
    by simp
qed

theorem statsd_incremented_before_decremented_witness:
  "gets_statsd_messages_for_deleted_routes (receiving scripted_statsd) 0 100
       ([''routing_api.total_http_routes:+1|g'', ''routing_api.total_http_routes:1|g'',
         ''routing_api.total_http_routes:-1|g''], [])
     = (Returned (),
        ([], [''routing_api.total_http_routes:+1|g'', ''routing_api.total_http_routes:1|g'',
              ''routing_api.total_http_routes:-1|g'']))
   \<and> gets_statsd_messages_for_expired_routes scripted_statsd 100 100
       [''routing_api.total_http_routes:-1|g'', ''routing_api.total_http_routes:+1|g'']
     = (Panicked GomegaFailure, [])"
  using statsd_incremented_before_decremented
          [where env = scripted_statsd and polls = 0 and polls' = 100
             and w = "[''routing_api.total_http_routes:+1|g'', ''routing_api.total_http_routes:1|g'',
                       ''routing_api.total_http_routes:-1|g'']"]
        statsd_incremented_before_decremented
          [where env = scripted_statsd and polls = 100 and polls' = 100
             and w = "[''routing_api.total_http_routes:-1|g'', ''routing_api.total_http_routes:+1|g'']"]
  by (simp add: gets_statsd_messages_for_deleted_routes_def
      gets_statsd_messages_for_expired_routes_def expect_incremented_then_decremented_def
      scripted_statsd_def receiving_def total_http_routes_incremented_def
      total_http_routes_decremented_def Let_def eval_nat_numeral)

section \<open>Theorems: the etcd store\<close>

lemma unmarshal_nodes_Inl:
  "\<exists>node\<in>set nodes. isl (unmarshal (Value node)) \<Longrightarrow>
   isl (unmarshal_nodes unmarshal nodes results)"
  by (induction nodes arbitrary: results) (auto split: sum.splits)

lemma externalPort_nodes_Inl:
  "\<exists>externalPortNode\<in>set nodes. \<exists>mappingNode\<in>set (Nodes externalPortNode).
      isl (unmarshal (Value mappingNode)) \<Longrightarrow>
   isl (externalPort_nodes unmarshal nodes results)"
proof (induction nodes arbitrary: results)
  case Nil
  then show ?case by simp
next
  case (Cons externalPortNode nodes)
  show ?case
  proof (cases "unmarshal_nodes unmarshal (Nodes externalPortNode) results")
    case (Inl err)
    then show ?thesis by simp
  next
    case (Inr results')
    then have "\<not> (\<exists>mappingNode\<in>set (Nodes externalPortNode). isl (unmarshal (Value mappingNode)))"
      using unmarshal_nodes_Inl [of "Nodes externalPortNode" unmarshal results] by auto
    with Cons.prems have
      "\<exists>externalPortNode\<in>set nodes. \<exists>mappingNode\<in>set (Nodes externalPortNode).
          isl (unmarshal (Value mappingNode))"
      by auto
    from Cons.IH [OF this] Inr show ?thesis by simp
  qed
qed

lemma routerGroup_nodes_Inl:
  "\<exists>routerGroupNode\<in>set nodes. \<exists>externalPortNode\<in>set (Nodes routerGroupNode).
      \<exists>mappingNode\<in>set (Nodes externalPortNode). isl (unmarshal (Value mappingNode)) \<Longrightarrow>
   isl (routerGroup_nodes unmarshal nodes results)"
proof (induction nodes arbitrary: results)
  case Nil
  then show ?case by simp
next
  case (Cons routerGroupNode nodes)
  show ?case
  proof (cases "externalPort_nodes unmarshal (Nodes routerGroupNode) results")
    case (Inl err)
    then show ?thesis by simp
  next
    case (Inr results')
    then have "\<not> (\<exists>externalPortNode\<in>set (Nodes routerGroupNode).
                    \<exists>mappingNode\<in>set (Nodes externalPortNode).
                       isl (unmarshal (Value mappingNode)))"
      using externalPort_nodes_Inl [of "Nodes routerGroupNode" unmarshal results] by auto
    with Cons.prems have
      "\<exists>routerGroupNode\<in>set nodes. \<exists>externalPortNode\<in>set (Nodes routerGroupNode).
          \<exists>mappingNode\<in>set (Nodes externalPortNode). isl (unmarshal (Value mappingNode))"
      by auto
    from Cons.IH [OF this] Inr show ?thesis by simp
  qed
qed

lemma ReadRoutes_cases:
  "ReadRoutes e s =
     (case keysAPI_Get e s HTTP_ROUTE_BASE_KEY of
        ((response, Some err), s1) \<Rightarrow> (Returned ([], None), s1)
      | ((None, None), s1) \<Rightarrow> (Panicked NilPointerDereference, s1)
      | ((Some response, None), s1) \<Rightarrow>
          (Returned (case unmarshal_nodes (Unmarshal_Route e) (Nodes (Node response)) [] of
                       Inl err \<Rightarrow> [] | Inr listRoutes \<Rightarrow> listRoutes, None), s1))"
  by (simp add: ReadRoutes_def split: prod.splits option.splits sum.splits)

lemma ReadTcpRouteMappings_cases:
  "ReadTcpRouteMappings e s =
     (case keysAPI_Get e s TCP_MAPPING_BASE_KEY of
        ((response, Some err), s1) \<Rightarrow> (Returned ([], None), s1)
      | ((None, None), s1) \<Rightarrow> (Panicked NilPointerDereference, s1)
      | ((Some response, None), s1) \<Rightarrow>
          (Returned (case routerGroup_nodes (Unmarshal_TcpRouteMapping e)
                            (Nodes (Node response)) [] of
                       Inl err \<Rightarrow> [] | Inr listMappings \<Rightarrow> listMappings, None), s1))"
  by (simp add: ReadTcpRouteMappings_def split: prod.splits option.splits sum.splits)

text \<open>
  Claim C8: \<^verbatim>\<open>ReadRoutes\<close> and \<^verbatim>\<open>ReadTcpRouteMappings\<close> never return a non-nil error. When
  the etcd \<^verbatim>\<open>Get\<close> fails, and when a stored value (the value of a child node for routes;
  of a node three levels down for TCP route mappings) does not unmarshal, they return
  the empty list and a nil error.
\<close>

theorem readers_discard_errors:
  "(\<forall>routes err s'. ReadRoutes e s \<noteq> (Returned (routes, Some err), s'))
   \<and> (\<forall>response err s1.
         keysAPI_Get e s HTTP_ROUTE_BASE_KEY = ((response, Some err), s1) \<longrightarrow>
         ReadRoutes e s = (Returned ([], None), s1))
   \<and> (\<forall>response s1.
         keysAPI_Get e s HTTP_ROUTE_BASE_KEY = ((Some response, None), s1)
       \<and> (\<exists>node\<in>set (Nodes (Node response)). isl (Unmarshal_Route e (Value node))) \<longrightarrow>
         ReadRoutes e s = (Returned ([], None), s1))
   \<and> (\<forall>mappings err s'. ReadTcpRouteMappings e s \<noteq> (Returned (mappings, Some err), s'))
   \<and> (\<forall>tcpMappings err s1.
         keysAPI_Get e s TCP_MAPPING_BASE_KEY = ((tcpMappings, Some err), s1) \<longrightarrow>
         ReadTcpRouteMappings e s = (Returned ([], None), s1))
   \<and> (\<forall>tcpMappings s1.
         keysAPI_Get e s TCP_MAPPING_BASE_KEY = ((Some tcpMappings, None), s1)
       \<and> (\<exists>routerGroupNode\<in>set (Nodes (Node tcpMappings)).
            \<exists>externalPortNode\<in>set (Nodes routerGroupNode).
              \<exists>mappingNode\<in>set (Nodes externalPortNode).
                isl (Unmarshal_TcpRouteMapping e (Value mappingNode))) \<longrightarrow>
         ReadTcpRouteMappings e s = (Returned ([], None), s1))"
proof (intro conjI allI impI)
  fix routes err s'
  show "ReadRoutes e s \<noteq> (Returned (routes, Some err), s')"
    unfolding ReadRoutes_cases by (auto split: prod.splits option.splits)
next
  fix response err s1
  assume "keysAPI_Get e s HTTP_ROUTE_BASE_KEY = ((response, Some err), s1)"
  then show "ReadRoutes e s = (Returned ([], None), s1)"
    unfolding ReadRoutes_cases by (simp split: option.splits)
next
  fix response s1
  assume a: "keysAPI_Get e s HTTP_ROUTE_BASE_KEY = ((Some response, None), s1)
       \<and> (\<exists>node\<in>set (Nodes (Node response)). isl (Unmarshal_Route e (Value node)))"
  then have "isl (unmarshal_nodes (Unmarshal_Route e) (Nodes (Node response)) [])"
    by (intro unmarshal_nodes_Inl) simp
  with a show "ReadRoutes e s = (Returned ([], None), s1)"
    unfolding ReadRoutes_cases by (auto split: sum.splits)
next
  fix mappings err s'
  show "ReadTcpRouteMappings e s \<noteq> (Returned (mappings, Some err), s')"
    unfolding ReadTcpRouteMappings_cases by (auto split: prod.splits option.splits)
next
  fix tcpMappings err s1
  assume "keysAPI_Get e s TCP_MAPPING_BASE_KEY = ((tcpMappings, Some err), s1)"
  then show "ReadTcpRouteMappings e s = (Returned ([], None), s1)"
    unfolding ReadTcpRouteMappings_cases by (simp split: option.splits)
next
  fix tcpMappings s1
  assume a: "keysAPI_Get e s TCP_MAPPING_BASE_KEY = ((Some tcpMappings, None), s1)
       \<and> (\<exists>routerGroupNode\<in>set (Nodes (Node tcpMappings)).
            \<exists>externalPortNode\<in>set (Nodes routerGroupNode).
              \<exists>mappingNode\<in>set (Nodes externalPortNode).
                isl (Unmarshal_TcpRouteMapping e (Value mappingNode)))"
  then have "isl (routerGroup_nodes (Unmarshal_TcpRouteMapping e) (Nodes (Node tcpMappings)) [])"
    by (intro routerGroup_nodes_Inl) simp
  with a show "ReadTcpRouteMappings e s = (Returned ([], None), s1)"
    unfolding ReadTcpRouteMappings_cases by (auto split: sum.splits)
qed

theorem readers_discard_errors_witness:
  "ReadRoutes unreachable_etcd 0 = (Returned ([], None), 1)
   \<and> ReadTcpRouteMappings unreachable_etcd 0 = (Returned ([], None), 1)
   \<and> ReadRoutes memory_etcd [(''/routes/a.b.c,1.1.1.1:33'', ''{route}''),
                               (''/routes/x.y.z,1.1.1.2:34'', ''!route'')]
     = (Returned ([], None), [(''/routes/a.b.c,1.1.1.1:33'', ''{route}''),
                              (''/routes/x.y.z,1.1.1.2:34'', ''!route'')])"
  using readers_discard_errors [where e = unreachable_etcd and s = 0]
        readers_discard_errors
          [where e = memory_etcd
             and s = "[(''/routes/a.b.c,1.1.1.1:33'', ''{route}''),
                       (''/routes/x.y.z,1.1.1.2:34'', ''!route'')]"]
  by (simp add: unreachable_etcd_def memory_etcd_def toy_codec_def HTTP_ROUTE_BASE_KEY_def
      ROUTER_GROUP_BASE_KEY_def TCP_MAPPING_BASE_KEY_def)

lemma logging_simps [simp]:
  "keysAPI_Get (logging e) (s, calls) key =
     (case keysAPI_Get e s key of
        ((response, err), s') \<Rightarrow> ((response, err), (s', calls @ [GetCall key response err])))"
  "keysAPI_Set (logging e) (s, calls) key val opts =
     (case keysAPI_Set e s key val opts of
        (err, s') \<Rightarrow> (err, (s', calls @ [SetCall key val opts err])))"
  "NewModificationTag (logging e) (s, calls) =
     (case NewModificationTag e s of (r, s') \<Rightarrow> (r, (s', calls)))"
  "QueryEscape (logging e) = QueryEscape e"
  "Unmarshal_Route (logging e) = Unmarshal_Route e"
  "Marshal_Route (logging e) = Marshal_Route e"
  "Unmarshal_TcpRouteMapping (logging e) = Unmarshal_TcpRouteMapping e"
  "Marshal_TcpRouteMapping (logging e) = Marshal_TcpRouteMapping e"
  "Unmarshal_RouterGroup (logging e) = Unmarshal_RouterGroup e"
  "Marshal_RouterGroup (logging e) = Marshal_RouterGroup e"
  by (simp_all add: logging_def)

lemma ReadRouterGroups_logging:
  "\<exists>response err s1 outcome.
      keysAPI_Get e s ROUTER_GROUP_BASE_KEY = ((response, err), s1)
    \<and> ReadRouterGroups e s = (outcome, s1)
    \<and> ReadRouterGroups (logging e) (s, calls)
        = (outcome, (s1, calls @ [GetCall ROUTER_GROUP_BASE_KEY response err]))"
proof -
  obtain response err s1 where g: "keysAPI_Get e s ROUTER_GROUP_BASE_KEY = ((response, err), s1)"
    by (cases "keysAPI_Get e s ROUTER_GROUP_BASE_KEY") auto
  show ?thesis
    by (cases response; cases err)
       (auto simp: ReadRouterGroups_def g split: sum.splits)
qed

lemma store_RouterGroup_logging:
  "\<exists>result s'.
      keysAPI_Set e s key (Marshal_RouterGroup e routerGroup)
         \<lparr>PrevExist = [], PrevIndex = 0, OptionsTTL = 0\<rparr> = (result, s')
    \<and> store_RouterGroup e key routerGroup s = (Returned result, s')
    \<and> store_RouterGroup (logging e) key routerGroup (s, calls)
        = (Returned result,
           (s', calls @ [SetCall key (Marshal_RouterGroup e routerGroup)
                            \<lparr>PrevExist = [], PrevIndex = 0, OptionsTTL = 0\<rparr> result]))"
  by (cases "keysAPI_Set e s key (Marshal_RouterGroup e routerGroup)
         \<lparr>PrevExist = [], PrevIndex = 0, OptionsTTL = 0\<rparr>")
     (simp add: store_RouterGroup_def)


text \<open>The run of SaveRouterGroup, path by path.\<close>

lemma SaveRouterGroup_read_failed:
  assumes "Guid routerGroup \<noteq> []"
    and "keysAPI_Get e s ROUTER_GROUP_BASE_KEY = ((response0, err0), s1)"
    and "ReadRouterGroups e s = (read, s1)"
    and "ReadRouterGroups (logging e) (s, [])
           = (read, (s1, [GetCall ROUTER_GROUP_BASE_KEY response0 err0]))"
    and "read = Panicked p \<and> outcome = Panicked p
         \<or> (\<exists>groups err. read = Returned (groups, Some err) \<and> outcome = Returned (Some err))
         \<or> (\<exists>groups other. read = Returned (groups, None) \<and> other \<in> set groups
               \<and> Guid other \<noteq> Guid routerGroup \<and> Name other = Name routerGroup
               \<and> outcome = Returned (Some (DBError UniqueField (''The RouterGroup with name: ''
                     @ Name routerGroup @ '' already exists''))))"
  shows "SaveRouterGroup e routerGroup s = (outcome, s1)
       \<and> SaveRouterGroup (logging e) routerGroup (s, [])
           = (outcome, (s1, [GetCall ROUTER_GROUP_BASE_KEY response0 err0]))"
proof -
  have found: "\<exists>rg. find P groups = Some rg" if "other \<in> set groups" "P other"
    for P :: "RouterGroup \<Rightarrow> bool" and groups other
    using that by (cases "find P groups") (auto simp: find_None_iff)
  from assms(5) show ?thesis
  proof (elim disjE conjE exE)
    assume "read = Panicked p" "outcome = Panicked p"
    with assms(1-4) show ?thesis by (simp add: SaveRouterGroup_def)
  next
    fix groups err
    assume "read = Returned (groups, Some err)" "outcome = Returned (Some err)"
    with assms(1-4) show ?thesis by (simp add: SaveRouterGroup_def)
  next
    fix groups other
    assume a: "read = Returned (groups, None)" "other \<in> set groups"
      "Guid other \<noteq> Guid routerGroup" "Name other = Name routerGroup"
      "outcome = Returned (Some (DBError UniqueField (''The RouterGroup with name: ''
                     @ Name routerGroup @ '' already exists'')))"
    from found [of other groups
        "\<lambda>rg. Guid rg \<noteq> Guid routerGroup \<and> Name rg = Name routerGroup"] a(2-4)
    obtain rg where
      "find (\<lambda>rg. Guid rg \<noteq> Guid routerGroup \<and> Name rg = Name routerGroup) groups = Some rg"
      by auto
    with assms(1-4) a(1,5) show ?thesis by (simp add: SaveRouterGroup_def)
  qed
qed

lemma SaveRouterGroup_checked:
  assumes "Guid routerGroup \<noteq> []"
    and "keysAPI_Get e s ROUTER_GROUP_BASE_KEY = ((response0, err0), s1)"
    and "ReadRouterGroups e s = (Returned (groups, None), s1)"
    and "ReadRouterGroups (logging e) (s, [])
           = (Returned (groups, None), (s1, [GetCall ROUTER_GROUP_BASE_KEY response0 err0]))"
    and "\<not> (\<exists>other\<in>set groups. Guid other \<noteq> Guid routerGroup \<and> Name other = Name routerGroup)"
    and "keysAPI_Get e s1 (generateRouterGroupKey routerGroup) = ((response, err), s2)"
    and "response = None \<and> err = None \<and> outcome = Panicked NilPointerDereference
         \<or> (\<exists>rg uerr. response = Some rg \<and> err = None
               \<and> Unmarshal_RouterGroup e (Value (Node rg)) = Inl uerr
               \<and> outcome = Returned (Some uerr))
         \<or> (\<exists>rg current. response = Some rg \<and> err = None
               \<and> Unmarshal_RouterGroup e (Value (Node rg)) = Inr current
               \<and> Name routerGroup \<noteq> Name current
               \<and> outcome = Returned (Some (DBError NonUpdatableField
                              ''The RouterGroup Name cannot be updated'')))"
  shows "SaveRouterGroup e routerGroup s = (outcome, s2)
       \<and> SaveRouterGroup (logging e) routerGroup (s, [])
           = (outcome, (s2, [GetCall ROUTER_GROUP_BASE_KEY response0 err0,
                             GetCall (generateRouterGroupKey routerGroup) response err]))"
proof -
  from assms(5) have none:
    "find (\<lambda>rg. Guid rg \<noteq> Guid routerGroup \<and> Name rg = Name routerGroup) groups = None"
    by (simp add: find_None_iff)
  from assms(7) show ?thesis
  proof (elim disjE conjE exE)
    assume "response = None" "err = None" "outcome = Panicked NilPointerDereference"
    with assms(1-4,6) none show ?thesis by (simp add: SaveRouterGroup_def Let_def)
  next
    fix rg uerr
    assume "response = Some rg" "err = None"
      "Unmarshal_RouterGroup e (Value (Node rg)) = Inl uerr" "outcome = Returned (Some uerr)"
    with assms(1-4,6) none show ?thesis by (simp add: SaveRouterGroup_def Let_def)
  next
    fix rg current
    assume "response = Some rg" "err = None"
      "Unmarshal_RouterGroup e (Value (Node rg)) = Inr current"
      "Name routerGroup \<noteq> Name current"
      "outcome = Returned (Some (DBError NonUpdatableField
                              ''The RouterGroup Name cannot be updated''))"
    with assms(1-4,6) none show ?thesis by (simp add: SaveRouterGroup_def Let_def)
  qed
qed

lemma SaveRouterGroup_stored:
  assumes "Guid routerGroup \<noteq> []"
    and "keysAPI_Get e s ROUTER_GROUP_BASE_KEY = ((response0, err0), s1)"
    and "ReadRouterGroups e s = (Returned (groups, None), s1)"
    and "ReadRouterGroups (logging e) (s, [])
           = (Returned (groups, None), (s1, [GetCall ROUTER_GROUP_BASE_KEY response0 err0]))"
    and "\<not> (\<exists>other\<in>set groups. Guid other \<noteq> Guid routerGroup \<and> Name other = Name routerGroup)"
    and "keysAPI_Get e s1 (generateRouterGroupKey routerGroup) = ((response, err), s2)"
    and "err \<noteq> None
         \<or> (\<exists>rg current. response = Some rg
               \<and> Unmarshal_RouterGroup e (Value (Node rg)) = Inr current
               \<and> Name routerGroup = Name current)"
    and "keysAPI_Set e s2 (generateRouterGroupKey routerGroup) (Marshal_RouterGroup e routerGroup)
           \<lparr>PrevExist = [], PrevIndex = 0, OptionsTTL = 0\<rparr> = (result, s3)"
  shows "SaveRouterGroup e routerGroup s = (Returned result, s3)
       \<and> SaveRouterGroup (logging e) routerGroup (s, [])
           = (Returned result,
              (s3, [GetCall ROUTER_GROUP_BASE_KEY response0 err0,
                    GetCall (generateRouterGroupKey routerGroup) response err,
                    SetCall (generateRouterGroupKey routerGroup)
                      (Marshal_RouterGroup e routerGroup)
                      \<lparr>PrevExist = [], PrevIndex = 0, OptionsTTL = 0\<rparr> result]))"
proof -
  from assms(5) have none:
    "find (\<lambda>rg. Guid rg \<noteq> Guid routerGroup \<and> Name rg = Name routerGroup) groups = None"
    by (simp add: find_None_iff)
  show ?thesis
  proof (cases err)
    case (Some err')
    with assms(1-4,6,8) none show ?thesis
      by (cases response) (simp_all add: SaveRouterGroup_def store_RouterGroup_def Let_def)
  next
    case None
    with assms(7) obtain rg current where
      "response = Some rg" "Unmarshal_RouterGroup e (Value (Node rg)) = Inr current"
      "Name routerGroup = Name current"
      by auto
    with None assms(1-4,6,8) none show ?thesis
      by (simp add: SaveRouterGroup_def store_RouterGroup_def Let_def)
  qed
qed


text \<open>
  Claim C9: \<^verbatim>\<open>SaveRouterGroup\<close> returns an error and makes no \<^verbatim>\<open>Set\<close> call when the guid
  is empty; when the router groups read from etcd hold a group with another guid and
  the same name (\<^verbatim>\<open>UniqueField\<close>); and, no such group being there, when the \<^verbatim>\<open>Get\<close> of
  the group's own key returns a group with a different name (\<^verbatim>\<open>NonUpdatableField\<close>).
  Conversely, a run that makes a \<^verbatim>\<open>Set\<close> call had a non-empty guid, read the router
  groups without error and found the name free, and either found no group under the
  key (the \<^verbatim>\<open>Get\<close> returned an error) or found one with the same name; it made exactly
  one \<^verbatim>\<open>Set\<close> call, of the marshalled group under its key, and returns its error.
\<close>

theorem SaveRouterGroup_guards:
  "(let key = generateRouterGroupKey routerGroup;
        opts = \<lparr>PrevExist = [], PrevIndex = 0, OptionsTTL = 0\<rparr>;
        taken = (\<lambda>groups. \<exists>other\<in>set groups.
                    Guid other \<noteq> Guid routerGroup \<and> Name other = Name routerGroup);
        missing_guid = Returned (Some (GoError ''Invalid router group: missing guid''));
        not_unique = Returned (Some (DBError UniqueField
                       (''The RouterGroup with name: '' @ Name routerGroup @ '' already exists'')));
        not_updatable = Returned (Some (DBError NonUpdatableField
                          ''The RouterGroup Name cannot be updated''))
    in (Guid routerGroup = [] \<longrightarrow>
          SaveRouterGroup e routerGroup s = (missing_guid, s)
        \<and> SaveRouterGroup (logging e) routerGroup (s, []) = (missing_guid, (s, [])))
     \<and> (\<forall>groups s1.
           Guid routerGroup \<noteq> [] \<and> ReadRouterGroups e s = (Returned (groups, None), s1)
         \<and> taken groups \<longrightarrow>
           SaveRouterGroup e routerGroup s = (not_unique, s1)
         \<and> (\<exists>calls. SaveRouterGroup (logging e) routerGroup (s, []) = (not_unique, (s1, calls))
                \<and> list_all is_Get calls))
     \<and> (\<forall>groups s1 response s2 current.
           Guid routerGroup \<noteq> [] \<and> ReadRouterGroups e s = (Returned (groups, None), s1)
         \<and> \<not> taken groups
         \<and> keysAPI_Get e s1 key = ((Some response, None), s2)
         \<and> Unmarshal_RouterGroup e (Value (Node response)) = Inr current
         \<and> Name current \<noteq> Name routerGroup \<longrightarrow>
           SaveRouterGroup e routerGroup s = (not_updatable, s2)
         \<and> (\<exists>calls. SaveRouterGroup (logging e) routerGroup (s, []) = (not_updatable, (s2, calls))
                \<and> list_all is_Get calls))
     \<and> (\<forall>outcome s' calls.
           SaveRouterGroup (logging e) routerGroup (s, []) = (outcome, (s', calls))
         \<and> \<not> list_all is_Get calls \<longrightarrow>
           Guid routerGroup \<noteq> []
         \<and> (\<exists>groups s1 response err s2 result.
                ReadRouterGroups e s = (Returned (groups, None), s1)
              \<and> \<not> taken groups
              \<and> keysAPI_Get e s1 key = ((response, err), s2)
              \<and> (err \<noteq> None
                   \<or> (\<exists>rg current. response = Some rg
                         \<and> Unmarshal_RouterGroup e (Value (Node rg)) = Inr current
                         \<and> Name current = Name routerGroup))
              \<and> keysAPI_Set e s2 key (Marshal_RouterGroup e routerGroup) opts = (result, s')
              \<and> outcome = Returned result
              \<and> SaveRouterGroup e routerGroup s = (Returned result, s')
              \<and> filter (\<lambda>call. \<not> is_Get call) calls
                  = [SetCall key (Marshal_RouterGroup e routerGroup) opts result])))"
  unfolding Let_def
proof (intro conjI allI impI)
  assume "Guid routerGroup = []"
  then show "SaveRouterGroup e routerGroup s
               = (Returned (Some (GoError ''Invalid router group: missing guid'')), s)"
    and "SaveRouterGroup (logging e) routerGroup (s, [])
               = (Returned (Some (GoError ''Invalid router group: missing guid'')), (s, []))"
    by (simp_all add: SaveRouterGroup_def)
next
  fix groups s1
  assume a: "Guid routerGroup \<noteq> [] \<and> ReadRouterGroups e s = (Returned (groups, None), s1)
         \<and> (\<exists>other\<in>set groups. Guid other \<noteq> Guid routerGroup \<and> Name other = Name routerGroup)"
  from ReadRouterGroups_logging [of e s "[]"] a
  obtain response0 err0 where
    r: "keysAPI_Get e s ROUTER_GROUP_BASE_KEY = ((response0, err0), s1)"
       "ReadRouterGroups (logging e) (s, [])
          = (Returned (groups, None), (s1, [GetCall ROUTER_GROUP_BASE_KEY response0 err0]))"
    by auto
  from a obtain other where o: "other \<in> set groups" "Guid other \<noteq> Guid routerGroup"
    "Name other = Name routerGroup" by blast
  have "SaveRouterGroup e routerGroup s
          = (Returned (Some (DBError UniqueField (''The RouterGroup with name: ''
                     @ Name routerGroup @ '' already exists''))), s1)
       \<and> SaveRouterGroup (logging e) routerGroup (s, [])
          = (Returned (Some (DBError UniqueField (''The RouterGroup with name: ''
                     @ Name routerGroup @ '' already exists''))),
             (s1, [GetCall ROUTER_GROUP_BASE_KEY response0 err0]))"
    by (rule SaveRouterGroup_read_failed [OF _ r(1) _ r(2)]) (use a o in auto)
  then show "SaveRouterGroup e routerGroup s
          = (Returned (Some (DBError UniqueField (''The RouterGroup with name: ''
                     @ Name routerGroup @ '' already exists''))), s1)"
    and "\<exists>calls. SaveRouterGroup (logging e) routerGroup (s, [])
          = (Returned (Some (DBError UniqueField (''The RouterGroup with name: ''
                     @ Name routerGroup @ '' already exists''))), (s1, calls))
        \<and> list_all is_Get calls"
    by simp_all
next
  fix groups s1 response s2 current
  assume a: "Guid routerGroup \<noteq> [] \<and> ReadRouterGroups e s = (Returned (groups, None), s1)
         \<and> \<not> (\<exists>other\<in>set groups. Guid other \<noteq> Guid routerGroup \<and> Name other = Name routerGroup)
         \<and> keysAPI_Get e s1 (generateRouterGroupKey routerGroup) = ((Some response, None), s2)
         \<and> Unmarshal_RouterGroup e (Value (Node response)) = Inr current
         \<and> Name current \<noteq> Name routerGroup"
  from ReadRouterGroups_logging [of e s "[]"] a
  obtain response0 err0 where
    r: "keysAPI_Get e s ROUTER_GROUP_BASE_KEY = ((response0, err0), s1)"
       "ReadRouterGroups (logging e) (s, [])
          = (Returned (groups, None), (s1, [GetCall ROUTER_GROUP_BASE_KEY response0 err0]))"
    by auto
  have "SaveRouterGroup e routerGroup s
          = (Returned (Some (DBError NonUpdatableField
                              ''The RouterGroup Name cannot be updated'')), s2)
       \<and> SaveRouterGroup (logging e) routerGroup (s, [])
          = (Returned (Some (DBError NonUpdatableField
                              ''The RouterGroup Name cannot be updated'')),
             (s2, [GetCall ROUTER_GROUP_BASE_KEY response0 err0,
                   GetCall (generateRouterGroupKey routerGroup) (Some response) None]))"
    by (rule SaveRouterGroup_checked [OF _ r(1) _ r(2)]) (use a in auto)
  then show "SaveRouterGroup e routerGroup s
          = (Returned (Some (DBError NonUpdatableField
                              ''The RouterGroup Name cannot be updated'')), s2)"
    and "\<exists>calls. SaveRouterGroup (logging e) routerGroup (s, [])
          = (Returned (Some (DBError NonUpdatableField
                              ''The RouterGroup Name cannot be updated'')), (s2, calls))
        \<and> list_all is_Get calls"
    by simp_all
next
  fix outcome s' calls
  assume a: "SaveRouterGroup (logging e) routerGroup (s, []) = (outcome, (s', calls))
         \<and> \<not> list_all is_Get calls"
  show guid: "Guid routerGroup \<noteq> []"
  proof
    assume "Guid routerGroup = []"
    with a show False by (auto simp: SaveRouterGroup_def)
  qed
  let ?key = "generateRouterGroupKey routerGroup"
  let ?opts = "\<lparr>PrevExist = [], PrevIndex = 0, OptionsTTL = 0\<rparr>"
  let ?taken = "\<lambda>groups. \<exists>other\<in>set groups.
                    Guid other \<noteq> Guid routerGroup \<and> Name other = Name routerGroup"
  from ReadRouterGroups_logging [of e s "[]"]
  obtain response0 err0 s1 read where
    r: "keysAPI_Get e s ROUTER_GROUP_BASE_KEY = ((response0, err0), s1)"
       "ReadRouterGroups e s = (read, s1)"
       "ReadRouterGroups (logging e) (s, [])
          = (read, (s1, [GetCall ROUTER_GROUP_BASE_KEY response0 err0]))"
    by auto
  note early = SaveRouterGroup_read_failed [OF guid r, THEN conjunct2]
  have no_early: "False"
    if "SaveRouterGroup (logging e) routerGroup (s, [])
          = (out, (s1, [GetCall ROUTER_GROUP_BASE_KEY response0 err0]))" for out
    using that a by simp
  obtain groups where read: "read = Returned (groups, None)" and free: "\<not> ?taken groups"
  proof (cases read)
    case (Panicked p)
    then show ?thesis using early [of p "Panicked p"] no_early by blast
  next
    case (Returned pair)
    obtain groups rerr where pair: "pair = (groups, rerr)" by (cases pair)
    show ?thesis
    proof (cases rerr)
      case (Some err)
      then show ?thesis
        using early [of undefined "Returned (Some err)"] no_early Returned pair by blast
    next
      case None
      show ?thesis
      proof (cases "?taken groups")
        case True
        then show ?thesis
          using early [of undefined "Returned (Some (DBError UniqueField
                  (''The RouterGroup with name: '' @ Name routerGroup @ '' already exists'')))"]
            no_early Returned pair None by blast
      next
        case False
        with Returned pair None that show ?thesis by blast
      qed
    qed
  qed
  obtain response err s2 where
    g: "keysAPI_Get e s1 ?key = ((response, err), s2)"
    by (cases "keysAPI_Get e s1 ?key") auto
  note checked = SaveRouterGroup_checked
                   [OF guid r(1) r(2) [unfolded read] r(3) [unfolded read] free g, THEN conjunct2]
  have no_check: "False"
    if "SaveRouterGroup (logging e) routerGroup (s, [])
          = (out, (s2, [GetCall ROUTER_GROUP_BASE_KEY response0 err0,
                        GetCall ?key response err]))" for out
    using that a by simp
  have through: "err \<noteq> None
         \<or> (\<exists>rg current. response = Some rg
               \<and> Unmarshal_RouterGroup e (Value (Node rg)) = Inr current
               \<and> Name routerGroup = Name current)"
  proof (cases err)
    case (Some err')
    then show ?thesis by simp
  next
    case None
    note errNone = this
    show ?thesis
    proof (cases response)
      case None
      then show ?thesis
        using checked [of "Panicked NilPointerDereference"] no_check errNone by blast
    next
      case (Some rg)
      show ?thesis
      proof (cases "Unmarshal_RouterGroup e (Value (Node rg))")
        case (Inl uerr)
        then show ?thesis
          using checked [of "Returned (Some uerr)"] no_check errNone Some by blast
      next
        case (Inr current)
        show ?thesis
        proof (cases "Name routerGroup = Name current")
          case True
          with Some Inr show ?thesis by blast
        next
          case False
          then show ?thesis
            using checked [of "Returned (Some (DBError NonUpdatableField
                              ''The RouterGroup Name cannot be updated''))"]
              no_check errNone Some Inr by blast
        qed
      qed
    qed
  qed
  obtain result s3 where
    st: "keysAPI_Set e s2 ?key (Marshal_RouterGroup e routerGroup) ?opts = (result, s3)"
    by (cases "keysAPI_Set e s2 ?key (Marshal_RouterGroup e routerGroup) ?opts") auto
  from SaveRouterGroup_stored
         [OF guid r(1) r(2) [unfolded read] r(3) [unfolded read] free g through st] a
  have fin: "SaveRouterGroup e routerGroup s = (Returned result, s3)"
    "outcome = Returned result" "s' = s3"
    "calls = [GetCall ROUTER_GROUP_BASE_KEY response0 err0, GetCall ?key response err,
              SetCall ?key (Marshal_RouterGroup e routerGroup) ?opts result]"
    by simp_all
  from through have through':
    "err \<noteq> None
         \<or> (\<exists>rg current. response = Some rg
               \<and> Unmarshal_RouterGroup e (Value (Node rg)) = Inr current
               \<and> Name current = Name routerGroup)"
    by auto
  show "\<exists>groups s1 response err s2 result.
                ReadRouterGroups e s = (Returned (groups, None), s1)
              \<and> \<not> ?taken groups
              \<and> keysAPI_Get e s1 ?key = ((response, err), s2)
              \<and> (err \<noteq> None
                   \<or> (\<exists>rg current. response = Some rg
                         \<and> Unmarshal_RouterGroup e (Value (Node rg)) = Inr current
                         \<and> Name current = Name routerGroup))
              \<and> keysAPI_Set e s2 ?key (Marshal_RouterGroup e routerGroup) ?opts = (result, s')
              \<and> outcome = Returned result
              \<and> SaveRouterGroup e routerGroup s = (Returned result, s')
              \<and> filter (\<lambda>call. \<not> is_Get call) calls
                  = [SetCall ?key (Marshal_RouterGroup e routerGroup) ?opts result]"
    apply (rule exI [of _ groups], rule exI [of _ s1], rule exI [of _ response],
           rule exI [of _ err], rule exI [of _ s2], rule exI [of _ result])
    using r(2) read free g through' st fin by simp
qed

theorem SaveRouterGroup_guards_witness:
  "SaveRouterGroup (logging memory_etcd)
       \<lparr>Guid = ''g2'', Name = ''default'', GroupType = ''tcp'', ReservablePorts = ''1024-65535''\<rparr>
       ([(''/v1/router_groups/g1'', ''g1default'')], [])
     = (Returned (Some (DBError UniqueField
          ''The RouterGroup with name: default already exists'')),
        ([(''/v1/router_groups/g1'', ''g1default'')],
         [GetCall ''/v1/router_groups''
            (Some \<lparr>Node = NodeOf [] [NodeOf ''g1default'' [] 1] 1\<rparr>) None]))
   \<and> fst (SaveRouterGroup memory_etcd
       \<lparr>Guid = ''g1'', Name = ''renamed'', GroupType = ''tcp'', ReservablePorts = ''1024-65535''\<rparr>
       [(''/v1/router_groups/g1'', ''g1default'')])
     = Returned (Some (DBError NonUpdatableField ''The RouterGroup Name cannot be updated''))
   \<and> SaveRouterGroup memory_etcd
       \<lparr>Guid = ''g2'', Name = ''fresh'', GroupType = ''tcp'', ReservablePorts = ''1024-65535''\<rparr>
       [(''/v1/router_groups/g1'', ''g1default'')]
     = (Returned None,
        [(''/v1/router_groups/g2'', ''g2fresh''), (''/v1/router_groups/g1'', ''g1default'')])"
  using SaveRouterGroup_guards
          [where e = memory_etcd and s = "[(''/v1/router_groups/g1'', ''g1default'')]"
             and routerGroup = "\<lparr>Guid = ''g2'', Name = ''default'', GroupType = ''tcp'',
                                 ReservablePorts = ''1024-65535''\<rparr>"]
  by (simp add: SaveRouterGroup_def ReadRouterGroups_def store_RouterGroup_def
      generateRouterGroupKey_def memory_etcd_def toy_codec_def ROUTER_GROUP_BASE_KEY_def
      HTTP_ROUTE_BASE_KEY_def Let_def logging_def)

end
